theory Spec2Isabelle
  imports Complex_Main
begin

chapter \<open>The embedding\<close>

text \<open>
  The application is a browser front end. Each event handler is modelled as a function
  from the component state (a record of the \<open>useState\<close> cells the handler reads or
  writes) to the new state; what the network or a browser built-in answers is an
  argument of the handler. The numbers of the zoom handlers are binary64 values with
  their rounding, infinities and \<open>NaN\<close>; the other measures (the sizes of the
  fit-to-container computation, the bounding boxes) are real numbers. Identifiers and
  page numbers are natural numbers, and strings are lists of 8-bit characters.
\<close>

section \<open>Exceptions\<close>

text \<open>The exceptions that the modelled code can meet, each with its message.\<close>

datatype js_error = SyntaxError string | TypeError string

section \<open>Project dashboard: the document-upload dialog\<close>

text \<open>
  Source: \<open>handleFileSelect\<close> and \<open>handleDrop\<close> of the projects dashboard, in
  \<open>app/oauth/procore/callback/page.tsx\<close>. The dashboard keeps the file chosen for
  upload, a success flag and an error message. A browser \<open>File\<close> is modelled by the
  fields the dashboard reads or renders: its name, its MIME type and its size in bytes.
\<close>

record js_file =
  file_name :: string
  file_type :: string
  file_size :: nat

record upload_state =
  selectedFile :: "js_file option"
  uploadSuccess :: bool
  uploadError :: "string option"

text \<open>
  \<open>handleFileSelect\<close> reads \<open>event.target.files?.[0]\<close>: the file list may be
  \<open>null\<close> (\<open>None\<close>) or empty, and then nothing happens.
\<close>

definition handleFileSelect :: "js_file list option \<Rightarrow> upload_state \<Rightarrow> upload_state" where
  "handleFileSelect files st =
     (case files of
        None \<Rightarrow> st
      | Some [] \<Rightarrow> st
      | Some (f # _) \<Rightarrow>
          if file_type f = ''application/pdf''
          then st\<lparr>selectedFile := Some f, uploadSuccess := False, uploadError := None\<rparr>
          else st\<lparr>uploadError := Some ''Please select a PDF file only'', selectedFile := None\<rparr>)"

text \<open>\<open>handleDrop\<close> reads \<open>event.dataTransfer.files[0]\<close>.\<close>

definition handleDrop :: "js_file list \<Rightarrow> upload_state \<Rightarrow> upload_state" where
  "handleDrop files st =
     (case files of
        [] \<Rightarrow> st
      | f # _ \<Rightarrow>
          if file_type f = ''application/pdf''
          then st\<lparr>selectedFile := Some f, uploadSuccess := False, uploadError := None\<rparr>
          else st\<lparr>uploadError := Some ''Please select a PDF file only'', selectedFile := None\<rparr>)"

text \<open>The state \<open>handleUploadDocument\<close> leaves when it opens the dialog.\<close>

definition dialog_opened :: upload_state where
  "dialog_opened = \<lparr>selectedFile = None, uploadSuccess = False, uploadError = None\<rparr>"

definition svg_drawing :: js_file where
  "svg_drawing = \<lparr>file_name = ''A-101.svg'', file_type = ''image/svg+xml'', file_size = 52000\<rparr>"

definition pdf_drawing :: js_file where
  "pdf_drawing = \<lparr>file_name = ''A-101.pdf'', file_type = ''application/pdf'', file_size = 52000\<rparr>"

section \<open>RFI records and the two components that list them\<close>

text \<open>
  Sources: \<open>frontend/app/projects/[id]/components/RFIModal.tsx\<close> and
  \<open>frontend/app/projects/[id]/rfis/page.tsx\<close>. Both components keep the list of
  RFIs, a loading flag, an error message and the active tab in \<open>useState\<close> cells.
\<close>

text \<open>
  The two files declare the records alike, but for two fields: a check has its
  \<open>rfiId\<close> on the page only, an RFI its \<open>title\<close> in the modal only.
\<close>

record Check =
  check_id :: nat
  page :: nat
  boundingBox :: string
  check_description :: "string option"
  check_rfiId :: "nat option"

record RFI =
  rfi_id :: nat
  rfi_title :: "string option"
  description :: string
  rfi_type :: "string option"
  imagePath :: string
  createdAt :: string
  checks :: "Check list"

record rfi_cells =
  rfis :: "RFI list"
  loading :: bool
  error :: "string option"
  activeRfiTab :: string

text \<open>The modal: its props \<open>isOpen\<close> and \<open>projectId\<close>, and its own cells.\<close>

record rfi_modal = rfi_cells +
  isOpen :: bool
  projectId :: string
  isOverlayMode :: bool

text \<open>
  What \<open>fetch('/api/rfis?projectId=...')\<close> and \<open>response.json()\<close> answer.
  \<open>Unreadable\<close> stands for a body on which \<open>response.json()\<close> rejects or
  which is \<open>null\<close>, so that reading \<open>data.rfis\<close> throws; \<open>Data None\<close> for
  a body without a truthy \<open>rfis\<close> field.
\<close>

datatype rfis_body = Unreadable | Data "RFI list option"

datatype rfis_response = NetworkError | Response bool rfis_body

text \<open>
  \<open>fetchRFIs\<close> is asynchronous: it sets the loading flag and clears the error, awaits
  the answer, then either stores the list or, in its \<open>catch\<close>, the error message; the
  \<open>finally\<close> clears the loading flag.
\<close>

definition fetchRFIs_begin :: "rfi_modal \<Rightarrow> rfi_modal" where
  "fetchRFIs_begin st = st\<lparr>loading := True, error := None\<rparr>"

definition fetchRFIs_settle :: "rfis_response \<Rightarrow> rfi_modal \<Rightarrow> rfi_modal" where
  "fetchRFIs_settle resp st =
     (case resp of
        Response True (Data d) \<Rightarrow>
          st\<lparr>rfis := (case d of Some l \<Rightarrow> l | None \<Rightarrow> []), loading := False\<rparr>
      | _ \<Rightarrow> st\<lparr>error := Some ''Failed to load RFIs'', loading := False\<rparr>)"

definition fetchRFIs :: "rfis_response \<Rightarrow> rfi_modal \<Rightarrow> rfi_modal" where
  "fetchRFIs resp st = fetchRFIs_settle resp (fetchRFIs_begin st)"

text \<open>The fetch fails: the request throws, the response is not ok, or its body is unreadable.\<close>

fun fetch_failed :: "rfis_response \<Rightarrow> bool" where
  "fetch_failed NetworkError = True"
| "fetch_failed (Response ok Unreadable) = True"
| "fetch_failed (Response ok (Data d)) = (\<not> ok)"

text \<open>
  The modal as a transition system. An event is a change of the props (the effect with
  dependencies \<open>[isOpen, projectId]\<close> then runs), a click on one of the rendered
  controls, or the settling of a pending fetch. A step returns the new state and the
  requests it sends.
\<close>

datatype modal_event =
    Props bool string
  | ClickTryAgain
  | ClickOverlay
  | ClickClose
  | SelectTab string
  | Settled rfis_response

datatype request = GetRfis string

text \<open>The error view, with its "Try Again" button, is what an open modal renders when
  it is not loading and the error message is truthy.\<close>

definition try_again_shown :: "rfi_modal \<Rightarrow> bool" where
  "try_again_shown st \<longleftrightarrow>
     isOpen st \<and> \<not> loading st \<and> (case error st of None \<Rightarrow> False | Some m \<Rightarrow> m \<noteq> [])"

definition tabs_shown :: "rfi_modal \<Rightarrow> bool" where
  "tabs_shown st \<longleftrightarrow>
     isOpen st \<and> \<not> loading st \<and> (case error st of None \<Rightarrow> True | Some m \<Rightarrow> m = [])"

fun modal_step :: "modal_event \<Rightarrow> rfi_modal \<Rightarrow> rfi_modal \<times> request list" where
  "modal_step (Props opn pid) st =
     (let st' = st\<lparr>isOpen := opn, projectId := pid\<rparr> in
      if (opn \<noteq> isOpen st \<or> pid \<noteq> projectId st) \<and> opn \<and> pid \<noteq> []
      then (fetchRFIs_begin st', [GetRfis pid])
      else (st', []))"
| "modal_step ClickTryAgain st =
     (if try_again_shown st then (fetchRFIs_begin st, [GetRfis (projectId st)]) else (st, []))"
| "modal_step ClickOverlay st =
     (if isOpen st then (st\<lparr>isOverlayMode := \<not> isOverlayMode st\<rparr>, []) else (st, []))"
| "modal_step ClickClose st = (st, [])"
| "modal_step (SelectTab t) st =
     (if tabs_shown st then (st\<lparr>activeRfiTab := t\<rparr>, []) else (st, []))"
| "modal_step (Settled resp) st = (fetchRFIs_settle resp st, [])"

text \<open>The modal as first rendered (closed) by the project page.\<close>

definition modal_mounted :: "string \<Rightarrow> rfi_modal" where
  "modal_mounted pid =
     \<lparr>rfis = [], loading = False, error = None, activeRfiTab = ''all'',
      isOpen = False, projectId = pid, isOverlayMode = False\<rparr>"

text \<open>Project 42's modal, opened; and the same after its fetch failed on the network.\<close>

definition modal_opened :: rfi_modal where
  "modal_opened = fst (modal_step (Props True ''42'') (modal_mounted ''42''))"

definition modal_failed :: rfi_modal where
  "modal_failed = fst (modal_step (Settled NetworkError) modal_opened)"

text \<open>The modal's filter: the hard-coded ids hidden in overlay mode, then the tab.\<close>

definition hiddenRfiIds :: "nat list" where
  "hiddenRfiIds =
     [1140, 1141, 1143, 1144, 1124, 1125, 1122, 1123, 1120, 1119, 1121, 1100, 1059, 1014, 1015]"

definition getFilteredRfis_modal :: "rfi_modal \<Rightarrow> RFI list" where
  "getFilteredRfis_modal st =
     (let filtered = (if isOverlayMode st
                      then filter (\<lambda>rfi. rfi_id rfi \<notin> set hiddenRfiIds) (rfis st)
                      else rfis st)
      in if activeRfiTab st \<noteq> ''all''
         then filter (\<lambda>rfi. rfi_type rfi = Some (activeRfiTab st)) filtered
         else filtered)"

subsection \<open>The RFI page\<close>

text \<open>
  The page keeps, besides the four common cells, the sheet code of each page number, the
  cells of the description editor, and (here) the messages it has shown with
  \<open>alert\<close>.
\<close>

record rfi_page = rfi_cells +
  sheetCodes :: "nat \<rightharpoonup> string"
  editingRfiId :: "nat option"
  editedRfiDescription :: string
  isSavingRfi :: bool
  alerts :: "string list"

text \<open>
  The page's \<open>fetchRFIs\<close>. After storing the list it asks \<open>/api/page?page=p\<close> for
  every page number that occurs in a check; \<open>sheet_code_of p\<close> is the code in the
  answer, \<open>None\<close> when that request fails in any way (each is caught on its own). A
  code is stored when it is truthy.
\<close>

definition page_fetchRFIs :: "rfis_response \<Rightarrow> (nat \<Rightarrow> string option) \<Rightarrow> rfi_page \<Rightarrow> rfi_page" where
  "page_fetchRFIs resp sheet_code_of st =
     (case resp of
        Response True (Data d) \<Rightarrow>
          (let fetchedRfis = (case d of Some l \<Rightarrow> l | None \<Rightarrow> []);
               pageNumbers = concat (map (\<lambda>rfi. map page (checks rfi)) fetchedRfis)
           in st\<lparr>rfis := fetchedRfis,
                 sheetCodes := (\<lambda>p. if p \<in> set pageNumbers
                                      then (case sheet_code_of p of
                                              Some c \<Rightarrow> if c \<noteq> [] then Some c else None
                                            | None \<Rightarrow> None)
                                      else None),
                 loading := False, error := None\<rparr>)
      | _ \<Rightarrow> st\<lparr>error := Some ''Failed to load RFIs'', loading := False\<rparr>)"

text \<open>
  \<open>getFilteredRfis\<close>: the tab's filter, then a sort by id (\<open>Array.prototype.sort\<close>
  is stable, as \<open>sort_key\<close> is). On the tab \<open>all\<close> the list sorted is the
  array held in the state itself, so rendering leaves the state's list sorted by id:
  \<open>sorted_in_place\<close>.
\<close>

definition getFilteredRfis :: "rfi_page \<Rightarrow> RFI list" where
  "getFilteredRfis st =
     (let filtered =
        (if activeRfiTab st = ''all'' then rfis st
         else if activeRfiTab st = ''columns''
         then filter (\<lambda>rfi. rfi_type rfi = Some ''unmatched_column''
                         \<or> rfi_type rfi = Some ''unmatched_overlay_column_architectural''
                         \<or> rfi_type rfi = Some ''unmatched_overlay_column_structural'') (rfis st)
         else filter (\<lambda>rfi. rfi_type rfi = Some (activeRfiTab st)) (rfis st))
      in sort_key rfi_id filtered)"

definition sorted_in_place :: "rfi_page \<Rightarrow> rfi_page" where
  "sorted_in_place st =
     (if activeRfiTab st = ''all'' then st\<lparr>rfis := sort_key rfi_id (rfis st)\<rparr> else st)"

text \<open>The version clashes: a constant of the page's module.\<close>

record OriginalImage =
  oi_id :: nat
  oi_version :: string
  oi_versionCode :: string
  oi_imagePath :: string
  oi_description :: string
  oi_createdAt :: string

datatype clash_status = Active | Resolved | Under_Review

datatype clash_priority = High | Medium | Low

datatype clash_type = Dimensional | Structural | MEP | Architectural | Other

record VersionClash =
  clash_id :: nat
  clash_sheetCode :: string
  clash_title :: string
  clash_description :: string
  overlayImagePath :: string
  originalImages :: "OriginalImage list"
  clash_createdAt :: string
  status :: clash_status
  priority :: clash_priority
  affectedVersions :: "string list"
  clashType :: clash_type

definition mockVersionClashes :: "VersionClash list" where
  "mockVersionClashes =
     [\<lparr>clash_id = 1,
       clash_sheetCode = ''S-1.1'',
       clash_title = ''Wall extended for room 1302 on Floor 1 Area A in the new DD version'',
       clash_description = ''Significant layout differences detected between CD and DD versions in room E102. The wall has been extended by 2 feet in the DD version, affecting the room layout and dimensions.'',
       overlayImagePath = ''/overlay/a.png'',
       originalImages =
         [\<lparr>oi_id = 1, oi_version = ''90% CD'', oi_versionCode = ''CD-2025-001'',
           oi_imagePath = ''/overlay/a.png'',
           oi_description = ''Original CD version showing initial room layout'',
           oi_createdAt = ''2025-06-10T14:20:00Z''\<rparr>,
          \<lparr>oi_id = 2, oi_version = ''90% DD'', oi_versionCode = ''DD-2025-002'',
           oi_imagePath = ''/overlay/main.png'',
           oi_description = ''Updated DD version with modified wall positions'',
           oi_createdAt = ''2025-06-15T10:30:00Z''\<rparr>],
       clash_createdAt = ''2025-06-15T10:30:00Z'',
       status = Active,
       priority = High,
       affectedVersions = [''90% CD'', ''90% DD''],
       clashType = Architectural\<rparr>]"

text \<open>
  What the page renders. A \<open>TabsContent\<close> shows its children when its value is the
  active tab. The content of \<open>all\<close> and of the six type tabs is a spinner while
  loading, the error panel when the error is set, and otherwise one card per filtered RFI;
  the content of \<open>version-differences\<close> is one card per element of
  \<open>mockVersionClashes\<close>. The tab bar has triggers for four values only.
\<close>

datatype shown = ShownRfi RFI | ShownClash VersionClash

definition rfiTabs :: "string list" where
  "rfiTabs = [''all'', ''columns'', ''unmatched_wall'', ''wall_overlay'', ''slab'',
              ''enlarged_plans'', ''cross_section_view'']"

definition tabTriggers :: "string list" where
  "tabTriggers = [''all'', ''columns'', ''unmatched_wall'', ''slab'']"

definition tabsContent :: "string \<Rightarrow> rfi_page \<Rightarrow> shown list" where
  "tabsContent tab st =
     (if tab \<noteq> activeRfiTab st then []
      else if tab \<in> set rfiTabs
      then (if loading st then []
            else if (case error st of None \<Rightarrow> False | Some m \<Rightarrow> m \<noteq> []) then []
            else map ShownRfi (getFilteredRfis st))
      else if tab = ''version-differences'' then map ShownClash mockVersionClashes
      else [])"

text \<open>
  The active tab is written by \<open>onValueChange\<close> only, which the tab bar calls with
  the value of the trigger that was activated.
\<close>

definition onValueChange :: "string \<Rightarrow> rfi_page \<Rightarrow> rfi_page" where
  "onValueChange v st = (if v \<in> set tabTriggers then st\<lparr>activeRfiTab := v\<rparr> else st)"

text \<open>The page as mounted, with the initial values of its cells; and the same after the
  backend answered with an empty list of RFIs.\<close>

definition page_mounted :: rfi_page where
  "page_mounted =
     \<lparr>rfis = [], loading = True, error = None, activeRfiTab = ''all'',
      sheetCodes = Map.empty, editingRfiId = None, editedRfiDescription = [],
      isSavingRfi = False, alerts = []\<rparr>"

definition no_sheet_code :: "nat \<Rightarrow> string option" where
  "no_sheet_code p = None"

definition page_loaded_empty :: rfi_page where
  "page_loaded_empty = page_fetchRFIs (Response True (Data (Some []))) no_sheet_code page_mounted"

section \<open>JavaScript numbers\<close>

text \<open>
  The viewer's wheel and button handlers compute with JavaScript numbers, which are IEEE 754
  binary64 values: the finite ones, the two infinities and \<open>NaN\<close>. A finite value is
  kept as the real number it denotes; \<open>Num x\<close> is a value of the format when
  \<open>round64 x = Num x\<close>. The two zeros are identified: they differ only in the sign of
  a quotient by zero.
\<close>

datatype number = NaN | PosInf | NegInf | Num real

subsection \<open>Rounding to nearest, ties to even\<close>

text \<open>The integer nearest to \<open>z\<close>, the even one of the two when \<open>z\<close> lies halfway.\<close>

definition round_even :: "real \<Rightarrow> int" where
  "round_even z =
     (let f = \<lfloor>z\<rfloor>
      in if z - of_int f < 1 / 2 then f
         else if 1 / 2 < z - of_int f then f + 1
         else if even f then f else f + 1)"

text \<open>
  The exponent \<open>e\<close> of the unit in the last place of a magnitude \<open>a\<close>: the largest
  \<open>e\<close> from \<open>-1074\<close> to \<open>971\<close> with \<open>2^(e + 52) \<le> a\<close>, and \<open>-1074\<close> in the
  subnormal range, where there is none. The search goes down from the top.
\<close>

primrec exponent_from :: "nat \<Rightarrow> real \<Rightarrow> int" where
  "exponent_from 0 a = - 1074"
| "exponent_from (Suc k) a =
     (if 2 powi (int k - 1021) \<le> a then int k - 1073 else exponent_from k a)"

definition exponent_of :: "real \<Rightarrow> int" where
  "exponent_of a = exponent_from 2045 a"

text \<open>
  The binary64 value of a real number: it is rounded to a multiple of its unit in the last
  place, and a result of magnitude \<open>2^1024\<close> or more is an infinity.
\<close>

definition round64 :: "real \<Rightarrow> number" where
  "round64 x =
     (let e = exponent_of \<bar>x\<bar>;
          y = of_int (round_even (x / 2 powi e)) * 2 powi e
      in if 2 powi 1024 \<le> y then PosInf
         else if y \<le> - (2 powi 1024) then NegInf
         else Num y)"

text \<open>A decimal literal of the source denotes the binary64 value nearest to it.\<close>

definition js_literal :: "real \<Rightarrow> number" where
  "js_literal x = round64 x"

subsection \<open>Arithmetic and comparison\<close>

fun js_neg :: "number \<Rightarrow> number" where
  "js_neg NaN = NaN"
| "js_neg PosInf = NegInf"
| "js_neg NegInf = PosInf"
| "js_neg (Num x) = Num (- x)"

fun js_add :: "number \<Rightarrow> number \<Rightarrow> number" where
  "js_add (Num x) (Num y) = round64 (x + y)"
| "js_add NaN b = NaN"
| "js_add a NaN = NaN"
| "js_add PosInf NegInf = NaN"
| "js_add NegInf PosInf = NaN"
| "js_add PosInf b = PosInf"
| "js_add a PosInf = PosInf"
| "js_add NegInf b = NegInf"
| "js_add a NegInf = NegInf"

definition js_sub :: "number \<Rightarrow> number \<Rightarrow> number" where
  "js_sub a b = js_add a (js_neg b)"

fun negative :: "number \<Rightarrow> bool" where
  "negative (Num x) = (x < 0)"
| "negative NegInf = True"
| "negative PosInf = False"
| "negative NaN = False"

fun js_mul :: "number \<Rightarrow> number \<Rightarrow> number" where
  "js_mul (Num x) (Num y) = round64 (x * y)"
| "js_mul a b =
     (if a = NaN \<or> b = NaN \<or> a = Num 0 \<or> b = Num 0 then NaN
      else if negative a \<noteq> negative b then NegInf else PosInf)"

fun js_div :: "number \<Rightarrow> number \<Rightarrow> number" where
  "js_div (Num x) (Num y) =
     (if y = 0 then (if x = 0 then NaN else if x < 0 then NegInf else PosInf)
      else round64 (x / y))"
| "js_div (Num x) PosInf = Num 0"
| "js_div (Num x) NegInf = Num 0"
| "js_div PosInf (Num y) = (if y < 0 then NegInf else PosInf)"
| "js_div NegInf (Num y) = (if y < 0 then PosInf else NegInf)"
| "js_div a b = NaN"

text \<open>\<open>a < b\<close> is false when an operand is \<open>NaN\<close>.\<close>

fun js_less :: "number \<Rightarrow> number \<Rightarrow> bool" where
  "js_less (Num x) (Num y) = (x < y)"
| "js_less NaN b = False"
| "js_less a NaN = False"
| "js_less a NegInf = False"
| "js_less PosInf b = False"
| "js_less NegInf b = True"
| "js_less a PosInf = True"

text \<open>\<open>Math.max\<close> and \<open>Math.min\<close> return \<open>NaN\<close> when an argument is \<open>NaN\<close>.\<close>

definition Math_max :: "number \<Rightarrow> number \<Rightarrow> number" where
  "Math_max a b = (if a = NaN \<or> b = NaN then NaN else if js_less a b then b else a)"

definition Math_min :: "number \<Rightarrow> number \<Rightarrow> number" where
  "Math_min a b = (if a = NaN \<or> b = NaN then NaN else if js_less b a then b else a)"

text \<open>A number lies in a closed interval of reals: it is finite and between the bounds.\<close>

fun lies_between :: "real \<Rightarrow> real \<Rightarrow> number \<Rightarrow> bool" where
  "lies_between lo hi (Num x) = (lo \<le> x \<and> x \<le> hi)"
| "lies_between lo hi a = False"

section \<open>The multi-tab SVG viewer: viewport state\<close>

text \<open>
  Source: \<open>components/multi-tab-svg-viewer.tsx\<close>. A sheet is identified by its
  numeric id; \<open>sheets\<close> lists the ids of the open tabs. \<open>viewStates\<close>,
  \<open>svgImages\<close> and \<open>svgDimensions\<close> are the id-keyed \<open>Record\<close>s of
  the component (a missing key is \<open>None\<close>, or \<open>False\<close> for a missing
  image). The type parameter \<open>'n\<close> is the type of the coordinates and scales:
  \<open>number\<close> for the zoom handlers, which are followed operation by operation in
  binary64, and \<open>real\<close> for \<open>fitToContainer\<close>, whose arithmetic is taken exactly.
\<close>

instantiation number :: "{zero, one}"
begin

definition zero_number :: number where
  "zero_number = Num 0"

definition one_number :: number where
  "one_number = Num 1"

instance ..

end

record 'n ViewState =
  scale :: 'n
  translateX :: 'n
  translateY :: 'n

record 'n dims =
  width :: 'n
  height :: 'n

record 'n ViewUpdates =
  upd_scale :: "'n option"
  upd_translateX :: "'n option"
  upd_translateY :: "'n option"

record 'n viewer =
  sheets :: "nat list"
  activeTab :: nat
  viewStates :: "nat \<Rightarrow> 'n ViewState option"
  svgImages :: "nat \<Rightarrow> bool"
  stageSize :: "'n dims"
  svgDimensions :: "nat \<Rightarrow> 'n dims option"

definition defaultViewState :: "'n::{zero, one} ViewState" where
  "defaultViewState = \<lparr>scale = 1, translateX = 0, translateY = 0\<rparr>"

text \<open>
  \<open>safeActiveTab = Math.min(activeTab, sheets.length - 1)\<close> and
  \<open>currentSheet = sheets[safeActiveTab]\<close>: with no open sheet the index is
  \<open>-1\<close> and the current sheet is \<open>undefined\<close>.
\<close>

definition currentSheet :: "'n viewer \<Rightarrow> nat option" where
  "currentSheet st =
     (let safeActiveTab = min (int (activeTab st)) (int (length (sheets st)) - 1)
      in if 0 \<le> safeActiveTab then Some (sheets st ! nat safeActiveTab) else None)"

definition currentViewState :: "'n::{zero, one} viewer \<Rightarrow> 'n ViewState" where
  "currentViewState st =
     (case currentSheet st of
        Some sid \<Rightarrow> (case viewStates st sid of Some v \<Rightarrow> v | None \<Rightarrow> defaultViewState)
      | None \<Rightarrow> defaultViewState)"

text \<open>The object spread \<open>{...existingViewState, ...updates}\<close>.\<close>

definition merge_updates :: "'n ViewState \<Rightarrow> 'n ViewUpdates \<Rightarrow> 'n ViewState" where
  "merge_updates v u =
     \<lparr>scale = (case upd_scale u of Some x \<Rightarrow> x | None \<Rightarrow> scale v),
      translateX = (case upd_translateX u of Some x \<Rightarrow> x | None \<Rightarrow> translateX v),
      translateY = (case upd_translateY u of Some x \<Rightarrow> x | None \<Rightarrow> translateY v)\<rparr>"

definition updateViewState :: "'n::{zero, one} ViewUpdates \<Rightarrow> 'n viewer \<Rightarrow> 'n viewer" where
  "updateViewState updates st =
     (case currentSheet st of
        None \<Rightarrow> st
      | Some sid \<Rightarrow>
          st\<lparr>viewStates := (viewStates st)(sid \<mapsto> merge_updates (currentViewState st) updates)\<rparr>)"


text \<open>
  The zoom buttons. \<open>centerX ?? stageSize.width / 2\<close>: an absent argument is
  \<open>None\<close>.
\<close>

definition handleZoom ::
  "number \<Rightarrow> number option \<Rightarrow> number option \<Rightarrow> number viewer \<Rightarrow> number viewer" where
  "handleZoom delta centerX centerY st =
     (case currentSheet st of
        None \<Rightarrow> st
      | Some sid \<Rightarrow>
          let mouseX = (case centerX of Some x \<Rightarrow> x
                        | None \<Rightarrow> js_div (width (stageSize st)) (js_literal 2));
              mouseY = (case centerY of Some y \<Rightarrow> y
                        | None \<Rightarrow> js_div (height (stageSize st)) (js_literal 2));
              scaleFactor = (if js_less (js_literal 0) delta then js_literal 1.25 else js_literal 0.8);
              newScale = Math_max (js_literal 0.05)
                           (Math_min (js_literal 10) (js_mul (scale (currentViewState st)) scaleFactor));
              scaleChange = js_div newScale (scale (currentViewState st));
              newTranslateX =
                js_sub mouseX (js_mul (js_sub mouseX (translateX (currentViewState st))) scaleChange);
              newTranslateY =
                js_sub mouseY (js_mul (js_sub mouseY (translateY (currentViewState st))) scaleChange)
          in updateViewState
               \<lparr>upd_scale = Some newScale,
                upd_translateX = Some newTranslateX,
                upd_translateY = Some newTranslateY\<rparr> st)"

text \<open>
  The wheel handler reads the canvas stage, not the React state: its scale
  (\<open>stage.scaleX()\<close>), its position (\<open>stage.x()\<close>, \<open>stage.y()\<close>) and
  the pointer position, which may be \<open>null\<close>. An effect of the component copies the
  current view state to the stage after each render.
\<close>

record konva_stage =
  scaleX :: number
  stage_x :: number
  stage_y :: number
  getPointerPosition :: "(number \<times> number) option"

text \<open>
  One coordinate of \<open>mousePointTo\<close>: the drawing coordinate under the pointer,
  \<open>(pointer.x - stage.x()) / oldScale\<close>.
\<close>

definition mousePointTo :: "number \<Rightarrow> number \<Rightarrow> number \<Rightarrow> number" where
  "mousePointTo pointer pos oldScale = js_div (js_sub pointer pos) oldScale"

definition handleWheel :: "number \<Rightarrow> konva_stage \<Rightarrow> number viewer \<Rightarrow> number viewer" where
  "handleWheel deltaY stage st =
     (let oldScale = scaleX stage in
      case getPointerPosition stage of
        None \<Rightarrow> st
      | Some (pointer_x, pointer_y) \<Rightarrow>
          let mousePointTo_x = mousePointTo pointer_x (stage_x stage) oldScale;
              mousePointTo_y = mousePointTo pointer_y (stage_y stage) oldScale;
              scaleBy = js_literal 1.1;
              newScale = (if js_less (js_literal 0) deltaY then js_div oldScale scaleBy
                          else js_mul oldScale scaleBy);
              clampedScale = Math_max (js_literal 0.1) (Math_min (js_literal 5) newScale);
              newStagePos_x = js_sub pointer_x (js_mul mousePointTo_x clampedScale);
              newStagePos_y = js_sub pointer_y (js_mul mousePointTo_y clampedScale)
          in updateViewState
               \<lparr>upd_scale = Some clampedScale,
                upd_translateX = Some newStagePos_x,
                upd_translateY = Some newStagePos_y\<rparr> st)"


text \<open>
  The same viewer in binary64, and a stage at scale \<open>1\<close> and position \<open>(0, 0)\<close>
  with the pointer at \<open>(30, 480)\<close>.
\<close>

definition sheet_viewer :: "number ViewState \<Rightarrow> number dims \<Rightarrow> number viewer" where
  "sheet_viewer v d =
     \<lparr>sheets = [7], activeTab = 0,
      viewStates = Map.empty(7 \<mapsto> v),
      svgImages = (\<lambda>sid. sid = 7),
      stageSize = \<lparr>width = Num 1200, height = Num 800\<rparr>,
      svgDimensions = Map.empty(7 \<mapsto> d)\<rparr>"

definition wheel_viewer :: "number viewer" where
  "wheel_viewer =
     sheet_viewer \<lparr>scale = Num 1, translateX = Num 0, translateY = Num 0\<rparr>
       \<lparr>width = Num 3024, height = Num 2160\<rparr>"

definition wheel_stage :: konva_stage where
  "wheel_stage =
     \<lparr>scaleX = Num 1, stage_x = Num 0, stage_y = Num 0,
      getPointerPosition = Some (Num 30, Num 480)\<rparr>"

text \<open>A viewer and a stage whose scale is \<open>NaN\<close>.\<close>

definition nan_viewer :: "number viewer" where
  "nan_viewer =
     sheet_viewer \<lparr>scale = NaN, translateX = NaN, translateY = NaN\<rparr>
       \<lparr>width = NaN, height = NaN\<rparr>"

definition nan_stage :: konva_stage where
  "nan_stage =
     \<lparr>scaleX = NaN, stage_x = NaN, stage_y = NaN,
      getPointerPosition = Some (Num 30, Num 480)\<rparr>"

section \<open>The Procore OAuth callback page\<close>

text \<open>
  Source: \<open>app/oauth/procore/callback/page.tsx\<close>, \<open>handleCallback\<close>. The page reads
  three query parameters with \<open>searchParams.get\<close>, which gives \<open>null\<close> for an
  absent parameter and the (possibly empty) string for a present one. The handler tests
  them for truthiness: \<open>null\<close> and the empty string are falsy.
\<close>

record callback_params =
  oauth_code :: "string option"
  oauth_error :: "string option"
  oauth_state :: "string option"

definition truthy :: "string option \<Rightarrow> bool" where
  "truthy v = (case v of None \<Rightarrow> False | Some s \<Rightarrow> s \<noteq> [])"

text \<open>
  What a request to the backend answers: \<open>fetch\<close> rejects with an error message, or
  resolves to a response with its \<open>ok\<close> flag and a body. On the body,
  \<open>json()\<close> rejects with a message or resolves to a value; the handler reads the
  \<open>detail\<close> field of that value, which throws on \<open>null\<close>.
\<close>

datatype callback_json = JNull | JObject "string option"

datatype callback_body = Rejects string | Parsed callback_json

datatype callback_response = FetchThrows string | Resp bool callback_body

datatype callback_status = Status_loading | Status_success | Status_error

text \<open>
  The handler sends two requests: first a bare \<open>GET\<close> of the callback endpoint, whose
  response it does not use, then the token exchange with \<open>code\<close> and, when truthy,
  \<open>state\<close> in the query. \<open>exchange c s\<close> is the answer to the second, and
  \<open>settle_exchange\<close> is what the handler does with it. Every
  exception reaches the one \<open>catch\<close>, whose message is \<open>Error: \<close> and the
  exception's message (for the read of \<open>detail\<close> on \<open>null\<close> the text
  depends on the engine; Firefox's is used). The result is the final \<open>status\<close> and
  \<open>message\<close>.
\<close>

fun settle_exchange :: "callback_response \<Rightarrow> callback_status \<times> string" where
  "settle_exchange (FetchThrows m) = (Status_error, ''Error: '' @ m)"
| "settle_exchange (Resp True (Rejects m)) = (Status_error, ''Error: '' @ m)"
| "settle_exchange (Resp True (Parsed j)) =
     (Status_success, ''Successfully authenticated with Procore! You can now export RFIs.'')"
| "settle_exchange (Resp False (Rejects m)) = (Status_error, ''Error: '' @ m)"
| "settle_exchange (Resp False (Parsed JNull)) = (Status_error, ''Error: error is null'')"
| "settle_exchange (Resp False (Parsed (JObject d))) =
     (Status_error,
      ''Authentication failed: '' @ (case d of Some t \<Rightarrow> if t \<noteq> [] then t else ''Unknown error''
                                       | None \<Rightarrow> ''Unknown error''))"

definition handleCallback ::
  "callback_params \<Rightarrow> callback_response \<Rightarrow> (string \<Rightarrow> string option \<Rightarrow> callback_response)
     \<Rightarrow> callback_status \<times> string" where
  "handleCallback params bare exchange =
     (if truthy (oauth_error params)
      then (Status_error, ''OAuth error: '' @ (case oauth_error params of Some e \<Rightarrow> e | None \<Rightarrow> []))
      else if \<not> truthy (oauth_code params)
      then (Status_error, ''No authorization code received'')
      else
        (case bare of
           FetchThrows m \<Rightarrow> (Status_error, ''Error: '' @ m)
         | Resp _ _ \<Rightarrow>
             settle_exchange
               (exchange (case oauth_code params of Some c \<Rightarrow> c | None \<Rightarrow> [])
                         (if truthy (oauth_state params) then oauth_state params else None))))"

text \<open>The outcome of the token exchange that lets the handler succeed.\<close>

fun exchange_succeeds :: "callback_response \<Rightarrow> bool" where
  "exchange_succeeds (Resp True (Parsed j)) = True"
| "exchange_succeeds _ = False"

fun fetch_returns :: "callback_response \<Rightarrow> bool" where
  "fetch_returns (FetchThrows m) = False"
| "fetch_returns (Resp ok b) = True"

definition exchange_query :: "callback_params \<Rightarrow> string \<times> string option" where
  "exchange_query params =
     (case oauth_code params of Some c \<Rightarrow> c | None \<Rightarrow> [],
      if truthy (oauth_state params) then oauth_state params else None)"

text \<open>
  A backend that answers every request with \<open>200\<close> and an empty object; one whose
  answer to the token exchange is \<open>200\<close> with a body that is not JSON; and one that
  exchanges the code \<open>abc\<close> for the state \<open>xyz\<close> only.
\<close>

definition backend_ok :: callback_response where
  "backend_ok = Resp True (Parsed (JObject None))"

definition exchange_ok :: "string \<Rightarrow> string option \<Rightarrow> callback_response" where
  "exchange_ok c s = backend_ok"

definition exchange_not_json :: "string \<Rightarrow> string option \<Rightarrow> callback_response" where
  "exchange_not_json c s = Resp True (Rejects ''Unexpected end of JSON input'')"

definition exchange_abc_xyz :: "string \<Rightarrow> string option \<Rightarrow> callback_response" where
  "exchange_abc_xyz c s =
     (if c = ''abc'' \<and> s = Some ''xyz'' then backend_ok else FetchThrows ''Failed to fetch'')"

section \<open>Editing the description of an RFI\<close>

text \<open>
  Source: \<open>frontend/app/projects/[id]/rfis/page.tsx\<close>, \<open>cleanRfiDescription\<close> and
  \<open>handleSaveRfiDescription\<close>. The string built-ins they call are modelled first.
\<close>

subsection \<open>String built-ins\<close>

text \<open>
  \<open>s.split(sep)\<close> for a string separator: the pieces between the occurrences of
  \<open>sep\<close>, found from left to right without overlap; never an empty array. With the
  empty separator the result is the list of the characters.
\<close>

function split_from :: "string \<Rightarrow> string \<Rightarrow> string \<Rightarrow> string list" where
  "split_from sep piece [] = [piece]"
| "split_from sep piece (c # cs) =
     (if sep \<noteq> [] \<and> take (length sep) (c # cs) = sep
      then piece # split_from sep [] (drop (length sep) (c # cs))
      else split_from sep (piece @ [c]) cs)"
  by pat_completeness auto
termination
  by (relation "measure (\<lambda>(sep, piece, s). length s)") auto

definition split :: "string \<Rightarrow> string \<Rightarrow> string list" where
  "split sep s = (if sep = [] then map (\<lambda>c. [c]) s else split_from sep [] s)"

text \<open>\<open>parts.join(sep)\<close>.\<close>

fun join :: "string \<Rightarrow> string list \<Rightarrow> string" where
  "join sep [] = []"
| "join sep [p] = p"
| "join sep (p # q # ps) = p @ sep @ join sep (q # ps)"

text \<open>
  \<open>s.trim()\<close> removes white space and line terminators at both ends. Among the
  8-bit characters these are tab, line feed, vertical tab, form feed, carriage return,
  space and the no-break space.
\<close>

definition is_space :: "char \<Rightarrow> bool" where
  "is_space c \<longleftrightarrow> c \<in> set [CHR 0x09, CHR 0x0A, CHR 0x0B, CHR 0x0C, CHR 0x0D, CHR 0x20, CHR 0xA0]"

definition trim :: "string \<Rightarrow> string" where
  "trim s = rev (dropWhile is_space (rev (dropWhile is_space s)))"

text \<open>\<open>s.includes(sub)\<close>.\<close>

fun includes_str :: "string \<Rightarrow> string \<Rightarrow> bool" where
  "includes_str sub [] = (sub = [])"
| "includes_str sub (c # cs) = (take (length sub) (c # cs) = sub \<or> includes_str sub cs)"

definition newline :: string where
  "newline = [CHR 0x0A]"

definition blank_line :: string where
  "blank_line = [CHR 0x0A, CHR 0x0A]"

subsection \<open>The two handlers\<close>

definition cleanRfiDescription :: "string \<Rightarrow> string" where
  "cleanRfiDescription desc =
     (if desc = [] then []
      else
        let parts = split blank_line desc in
        if length parts > 1 then trim (join blank_line (drop 1 parts))
        else
          let lines = split newline desc in
          if length lines > 1
             \<and> (let firstLine = trim (hd lines)
                in includes_str ''Page'' firstLine \<or> includes_str ''#'' firstLine
                   \<or> includes_str ''Level'' firstLine \<or> includes_str '' - '' firstLine)
          then trim (join newline (drop 1 lines))
          else trim desc)"

text \<open>What the \<open>PATCH\<close> of \<open>/api/rfis/{id}\<close> answers.\<close>

datatype patch_response = PatchThrows | PatchResponse bool

text \<open>
  \<open>originalParts[0]\<close>, the title part of a description, and the full description
  the handler builds from it and the text in the editor.
\<close>

definition titlePart :: "string \<Rightarrow> string" where
  "titlePart desc = hd (split blank_line desc)"

definition fullDescription :: "string \<Rightarrow> string \<Rightarrow> string" where
  "fullDescription original edited = titlePart original @ blank_line @ edited"

text \<open>
  \<open>handleSaveRfiDescription\<close> does nothing while a save is pending. Otherwise it looks
  the RFI up, sends the full description, and on an ok response replaces the description
  of every RFI with that id and leaves the editor; on any other outcome it shows an alert.
  The \<open>finally\<close> clears the pending flag, also when the RFI was not found.
\<close>

definition handleSaveRfiDescription :: "nat \<Rightarrow> patch_response \<Rightarrow> rfi_page \<Rightarrow> rfi_page" where
  "handleSaveRfiDescription rfiId resp st =
     (if isSavingRfi st then st
      else
        (case find (\<lambda>rfi. rfi_id rfi = rfiId) (rfis st) of
           None \<Rightarrow> st\<lparr>isSavingRfi := False\<rparr>
         | Some originalRfi \<Rightarrow>
             (case resp of
                PatchResponse True \<Rightarrow>
                  st\<lparr>rfis := map (\<lambda>rfi. if rfi_id rfi = rfiId
                                         then rfi\<lparr>description :=
                                                fullDescription (description originalRfi)
                                                  (editedRfiDescription st)\<rparr>
                                         else rfi) (rfis st),
                     editingRfiId := None,
                     isSavingRfi := False\<rparr>
              | PatchResponse False \<Rightarrow>
                  st\<lparr>alerts := alerts st @ [''Failed to update RFI description. Please try again.''],
                     isSavingRfi := False\<rparr>
              | PatchThrows \<Rightarrow>
                  st\<lparr>alerts := alerts st @ [''Error updating RFI description. Please try again.''],
                     isSavingRfi := False\<rparr>)))"

text \<open>\<open>handleEditRfiDescription\<close> opens the editor on the cleaned description.\<close>

definition handleEditRfiDescription :: "RFI \<Rightarrow> rfi_page \<Rightarrow> rfi_page" where
  "handleEditRfiDescription rfi st =
     st\<lparr>editingRfiId := Some (rfi_id rfi),
        editedRfiDescription := cleanRfiDescription (description rfi)\<rparr>"

definition handleCancelRfiEdit :: "rfi_page \<Rightarrow> rfi_page" where
  "handleCancelRfiEdit st = st\<lparr>editingRfiId := None, editedRfiDescription := []\<rparr>"

text \<open>
  The RFI page as a transition system: the settling of a fetch, a click on a tab trigger,
  the controls of the description editor, and a render (which sorts in place). \<open>run_page\<close>
  is the state after a sequence of events from the mounted page.
\<close>

datatype page_event =
    RfisFetched rfis_response "nat \<Rightarrow> string option"
  | TabTriggered string
  | EditClicked RFI
  | DescriptionTyped string
  | SaveClicked nat patch_response
  | CancelClicked
  | Rendered

fun page_step :: "page_event \<Rightarrow> rfi_page \<Rightarrow> rfi_page" where
  "page_step (RfisFetched resp sheet_code_of) st = page_fetchRFIs resp sheet_code_of st"
| "page_step (TabTriggered v) st = onValueChange v st"
| "page_step (EditClicked rfi) st = handleEditRfiDescription rfi st"
| "page_step (DescriptionTyped typed) st = st\<lparr>editedRfiDescription := typed\<rparr>"
| "page_step (SaveClicked rfiId resp) st = handleSaveRfiDescription rfiId resp st"
| "page_step CancelClicked st = handleCancelRfiEdit st"
| "page_step Rendered st = sorted_in_place st"

definition run_page :: "page_event list \<Rightarrow> rfi_page" where
  "run_page evs = foldl (\<lambda>st ev. page_step ev st) page_mounted evs"

text \<open>An RFI as the backend writes it, and a page that shows it with the editor open on
  a new text.\<close>

definition column_rfi :: RFI where
  "column_rfi =
     \<lparr>rfi_id = 1100, rfi_title = None,
      description = ''Column C4 - Level 2'' @ blank_line @ ''Column is offset from grid.'',
      rfi_type = Some ''unmatched_column'', imagePath = ''/rfis/1100.png'',
      createdAt = ''2025-06-15T10:30:00Z'', checks = []\<rparr>"

text \<open>The page receives that RFI, then the trigger \<open>columns\<close> is clicked; a third
  event names the tab that has no trigger.\<close>

definition three_events :: "page_event list" where
  "three_events =
     [RfisFetched (Response True (Data (Some [column_rfi]))) no_sheet_code,
      TabTriggered ''columns'',
      TabTriggered ''version-differences'']"




section \<open>The multi-tab SVG viewer: how a scale becomes \<open>NaN\<close>\<close>

text \<open>
  Source: \<open>components/multi-tab-svg-viewer.tsx\<close>, the \<open>onload\<close> handler of a
  sheet image and the auto-fit effect. For an SVG with a \<open>viewBox\<close> attribute the
  dimensions are \<open>const [, , w, h] = viewBox.split(' ').map(Number)\<close>. An element
  missing from the array is \<open>undefined\<close>; the dimensions are only used as a divisor
  and as a factor, where \<open>undefined\<close> is converted to \<open>NaN\<close>, and it is kept
  as \<open>NaN\<close> here. \<open>Number\<close> is a parameter.
\<close>

definition element :: "number list \<Rightarrow> nat \<Rightarrow> number" where
  "element xs i = (if i < length xs then xs ! i else NaN)"

definition viewBox_dimensions :: "(string \<Rightarrow> number) \<Rightarrow> string \<Rightarrow> number dims" where
  "viewBox_dimensions to_number viewBox =
     (let xs = map to_number (split '' '' viewBox)
      in \<lparr>width = element xs 2, height = element xs 3\<rparr>)"

text \<open>\<open>a !== b\<close> on numbers: \<open>NaN\<close> differs from every number, itself included.\<close>

definition strict_neq :: "number \<Rightarrow> number \<Rightarrow> bool" where
  "strict_neq a b \<longleftrightarrow> a = NaN \<or> b = NaN \<or> a \<noteq> b"

text \<open>
  The auto-fit effect: a current sheet with a loaded image, on a stage larger than
  \<open>100\<close> in both directions, whose view state is absent or still the initial one, is
  fitted to the stage.
\<close>

definition autoFit :: "number viewer \<Rightarrow> number viewer" where
  "autoFit st =
     (case currentSheet st of
        None \<Rightarrow> st
      | Some sid \<Rightarrow>
          if svgImages st sid \<and> js_less (js_literal 100) (width (stageSize st))
             \<and> js_less (js_literal 100) (height (stageSize st))
          then
            let hasCustomViewState =
                  (case viewStates st sid of
                     None \<Rightarrow> False
                   | Some v \<Rightarrow> strict_neq (scale v) (js_literal 1)
                       \<or> strict_neq (translateX v) (js_literal 0)
                       \<or> strict_neq (translateY v) (js_literal 0))
            in if hasCustomViewState then st
               else (case svgDimensions st sid of
                       None \<Rightarrow> st
                     | Some svgDim \<Rightarrow>
                         let fitX = js_div (width (stageSize st)) (width svgDim);
                             fitY = js_div (height (stageSize st)) (height svgDim);
                             fit = js_mul (Math_min fitX fitY) (js_literal 0.9)
                         in st\<lparr>viewStates := (viewStates st)(sid \<mapsto>
                              \<lparr>scale = fit,
                               translateX = js_div (js_sub (width (stageSize st))
                                              (js_mul (width svgDim) fit)) (js_literal 2),
                               translateY = js_div (js_sub (height (stageSize st))
                                              (js_mul (height svgDim) fit)) (js_literal 2)\<rparr>)\<rparr>)
          else st)"

text \<open>
  A sheet whose image has just loaded: the initial view state, and the dimensions read
  from a \<open>viewBox\<close> attribute written with commas.
\<close>

definition comma_viewBox :: string where
  "comma_viewBox = ''0,0,3024,2160''"

definition loaded_viewer :: "(string \<Rightarrow> number) \<Rightarrow> number viewer" where
  "loaded_viewer to_number =
     sheet_viewer \<lparr>scale = Num 1, translateX = Num 0, translateY = Num 0\<rparr>
       (viewBox_dimensions to_number comma_viewBox)"

section \<open>Version control: sheets that occur in several documents\<close>

text \<open>
  Source: \<open>frontend/app/projects/[id]/version-control/page.tsx\<close>,
  \<open>analyzeSheetComparisons\<close>.
\<close>

text \<open>
  A sheet as the pages declare it; \<open>svgPath\<close> is a field of the version-control
  page's declaration, \<open>svgContent\<close> of the assistant page's.
\<close>

datatype sheet_status = Not_started | In_progress | Completed

record Sheet =
  sheet_id :: nat
  code :: string
  sheet_title :: string
  sheet_type :: string
  sheet_page :: nat
  sheet_status :: sheet_status
  documentId :: nat
  svgPath :: "string option"
  svgContent :: "string option"

record Document =
  doc_id :: nat
  doc_type :: "string option"
  doc_path :: string
  doc_title :: "string option"
  doc_projectId :: nat

text \<open>
  An element of \<open>documents\<close> in a comparison. Its \<open>sheet\<close> is what
  \<open>sheets.find\<close> returned, \<open>undefined\<close> (\<open>None\<close>) included.
\<close>

record ComparedDocument =
  comparedDocumentId :: nat
  documentTitle :: string
  sheet :: "Sheet option"

record SheetComparison =
  sheetCode :: string
  documents :: "ComparedDocument list"

subsection \<open>The object that groups the sheets\<close>

text \<open>
  \<open>sheetsByCode\<close> is an object literal \<open>{}\<close> used as a dictionary. Its own
  properties are kept here in insertion order. Reading \<open>sheetsByCode[k]\<close> for a key
  that is not an own property follows the prototype chain to \<open>Object.prototype\<close>,
  whose properties are these; each of them is truthy and none has a \<open>push\<close> method.
\<close>

definition object_prototype_keys :: "string list" where
  "object_prototype_keys =
     [''constructor'', ''__defineGetter__'', ''__defineSetter__'', ''hasOwnProperty'',
      ''__lookupGetter__'', ''__lookupSetter__'', ''isPrototypeOf'', ''propertyIsEnumerable'',
      ''toString'', ''valueOf'', ''__proto__'', ''toLocaleString'']"

definition push_sheet :: "string \<Rightarrow> Sheet \<Rightarrow> (string \<times> Sheet list) list \<Rightarrow> (string \<times> Sheet list) list" where
  "push_sheet k s obj = map (\<lambda>(k', arr). if k' = k then (k', arr @ [s]) else (k', arr)) obj"

text \<open>
  The \<open>forEach\<close> over the sheets: a missing (falsy) entry is created, then the sheet
  is pushed. For a key inherited from the prototype the entry is not created and the call
  of \<open>push\<close> throws.
\<close>

fun group_sheets ::
  "Sheet list \<Rightarrow> (string \<times> Sheet list) list \<Rightarrow> js_error + (string \<times> Sheet list) list" where
  "group_sheets [] sheetsByCode = Inr sheetsByCode"
| "group_sheets (s # ss) sheetsByCode =
     (case map_of sheetsByCode (code s) of
        Some arr \<Rightarrow> group_sheets ss (push_sheet (code s) s sheetsByCode)
      | None \<Rightarrow>
          if code s \<in> set object_prototype_keys
          then Inl (TypeError ''sheetsByCode[sheet.code].push is not a function'')
          else group_sheets ss (sheetsByCode @ [(code s, [s])]))"

text \<open>
  \<open>Object.entries\<close> lists the own properties: first the keys that are array indices
  (canonical decimal numerals below \<open>2^32 - 1\<close>) in ascending numeric order, then the
  other keys in insertion order.
\<close>

definition is_digit :: "char \<Rightarrow> bool" where
  "is_digit c \<longleftrightarrow> 48 \<le> (of_char c :: nat) \<and> (of_char c :: nat) \<le> 57"

definition decimal_of :: "string \<Rightarrow> nat" where
  "decimal_of s = foldl (\<lambda>n c. 10 * n + ((of_char c :: nat) - 48)) 0 s"

definition array_index :: "string \<Rightarrow> nat option" where
  "array_index k =
     (if k \<noteq> [] \<and> list_all is_digit k \<and> (k = ''0'' \<or> hd k \<noteq> CHR ''0'')
         \<and> decimal_of k < 4294967295
      then Some (decimal_of k) else None)"

definition entries :: "(string \<times> 'v) list \<Rightarrow> (string \<times> 'v) list" where
  "entries obj =
     sort_key (\<lambda>(k, v). case array_index k of Some n \<Rightarrow> n | None \<Rightarrow> 0)
       (filter (\<lambda>(k, v). array_index k \<noteq> None) obj)
     @ filter (\<lambda>(k, v). array_index k = None) obj"

subsection \<open>The comparisons\<close>

text \<open>\<open>[...new Set(xs)]\<close>: the distinct elements in order of first occurrence.\<close>

definition unique :: "'a list \<Rightarrow> 'a list" where
  "unique xs = rev (remdups (rev xs))"

text \<open>The decimal numeral of a number, as a template literal prints it.\<close>

definition digit_char :: "nat \<Rightarrow> char" where
  "digit_char d = char_of (of_char CHR ''0'' + d :: nat)"

function decimal :: "nat \<Rightarrow> string" where
  "decimal n = (if 10 \<le> n then decimal (n div 10) @ [digit_char (n mod 10)] else [digit_char n])"
  by pat_completeness auto
termination
  by (relation "measure id") auto

definition compared_document :: "Document list \<Rightarrow> Sheet list \<Rightarrow> nat \<Rightarrow> ComparedDocument" where
  "compared_document allDocuments codeSheets docId =
     \<lparr>comparedDocumentId = docId,
      documentTitle =
        (case find (\<lambda>d. doc_id d = docId) allDocuments of
           Some d \<Rightarrow> (case doc_title d of
                        Some t \<Rightarrow> if t \<noteq> [] then t else ''Document '' @ decimal docId
                      | None \<Rightarrow> ''Document '' @ decimal docId)
         | None \<Rightarrow> ''Document '' @ decimal docId),
      sheet = find (\<lambda>s. documentId s = docId) codeSheets\<rparr>"

text \<open>What the body of the \<open>forEach\<close> over the entries pushes for one entry.\<close>

definition comparison_of :: "Document list \<Rightarrow> string \<times> Sheet list \<Rightarrow> SheetComparison list" where
  "comparison_of allDocuments entry =
     (case entry of (k, codeSheets) \<Rightarrow>
        if length codeSheets > 1
        then (let uniqueDocuments = unique (map documentId codeSheets)
              in if length uniqueDocuments > 1
                 then [\<lparr>sheetCode = k,
                        documents = map (compared_document allDocuments codeSheets) uniqueDocuments\<rparr>]
                 else [])
        else [])"

text \<open>Sheets that come from two documents at least.\<close>

definition several_documents :: "Sheet list \<Rightarrow> bool" where
  "several_documents codeSheets \<longleftrightarrow>
     (\<exists>s1 \<in> set codeSheets. \<exists>s2 \<in> set codeSheets. documentId s1 \<noteq> documentId s2)"

text \<open>The list the function hands to \<open>setSheetComparisons\<close>, or the exception it throws.\<close>

definition analyzeSheetComparisons :: "Sheet list \<Rightarrow> Document list \<Rightarrow> js_error + SheetComparison list" where
  "analyzeSheetComparisons allSheets allDocuments =
     (case group_sheets allSheets [] of
        Inl err \<Rightarrow> Inl err
      | Inr sheetsByCode \<Rightarrow> Inr (concat (map (comparison_of allDocuments) (entries sheetsByCode))))"

text \<open>Two versions of a drawing set, and a sheet whose code is \<open>constructor\<close> in
  both.\<close>

definition foundation_plan :: "nat \<Rightarrow> nat \<Rightarrow> Sheet" where
  "foundation_plan i doc =
     \<lparr>sheet_id = i, code = ''S-1.1'', sheet_title = ''Foundation plan'', sheet_type = ''structural'',
      sheet_page = 3, sheet_status = Completed, documentId = doc, svgPath = None, svgContent = None\<rparr>"

definition floor_plan :: "nat \<Rightarrow> nat \<Rightarrow> Sheet" where
  "floor_plan i doc =
     \<lparr>sheet_id = i, code = ''A-101'', sheet_title = ''Floor plan'', sheet_type = ''architectural'',
      sheet_page = 7, sheet_status = Not_started, documentId = doc, svgPath = None, svgContent = None\<rparr>"

definition constructor_notes :: "nat \<Rightarrow> nat \<Rightarrow> Sheet" where
  "constructor_notes i doc =
     \<lparr>sheet_id = i, code = ''constructor'', sheet_title = ''Notes of the constructor'',
      sheet_type = ''general'', sheet_page = 1, sheet_status = Completed, documentId = doc,
      svgPath = None, svgContent = None\<rparr>"

definition two_versions :: "Sheet list" where
  "two_versions = [foundation_plan 1 10, floor_plan 2 10, foundation_plan 3 11]"

definition two_documents :: "Document list" where
  "two_documents =
     [\<lparr>doc_id = 10, doc_type = None, doc_path = ''/documents/cd.pdf'', doc_title = Some ''90% CD'',
       doc_projectId = 1\<rparr>,
      \<lparr>doc_id = 11, doc_type = None, doc_path = ''/documents/dd.pdf'', doc_title = None,
       doc_projectId = 1\<rparr>]"

definition constructor_sheets :: "Sheet list" where
  "constructor_sheets = [constructor_notes 1 10, constructor_notes 2 11]"

section \<open>Parsing the bounding box of a check\<close>

text \<open>
  Source: \<open>frontend/app/projects/[id]/components/CheckDisplay.tsx\<close>,
  \<open>parseBoundingBox\<close>. \<open>JSON.parse\<close> is the engine's: it is an argument here, a
  function that returns the parsed value or throws a \<open>SyntaxError\<close> with a message.
  A result \<open>Inl\<close> of \<open>parseBoundingBox\<close> would be an exception that reaches its
  caller.
\<close>

datatype json =
    J_null
  | J_bool bool
  | J_number real
  | J_string string
  | J_array "json list"
  | J_object "(string \<times> json) list"

definition default_box :: json where
  "default_box =
     J_object [(''x'', J_number 0), (''y'', J_number 0),
               (''width'', J_number 100), (''height'', J_number 100)]"

definition parseBoundingBox :: "(string \<Rightarrow> js_error + json) \<Rightarrow> string \<Rightarrow> js_error + json" where
  "parseBoundingBox JSON_parse bbox =
     (case JSON_parse bbox of
        Inr parsed \<Rightarrow> Inr parsed
      | Inl err \<Rightarrow> Inr default_box)"

section \<open>The assistant page: the list of chat messages\<close>

text \<open>
  Source: the assistant page (\<open>ChatbotPage\<close>, in \<open>unnamed/part_000\<close>). The panel
  renders \<open>messages.map(...)\<close> unconditionally, one bubble per element of the
  \<open>messages\<close> cell. A \<open>Date\<close> is modelled by its time in milliseconds.
\<close>

record Project =
  project_id :: nat
  project_name :: string
  project_date :: string

datatype message_sender = User | Bot

record Message =
  message_id :: string
  content :: string
  sender :: message_sender
  timestamp :: nat
  sheetReference :: "(nat \<times> string \<times> string) option"

record chat_page =
  project :: "Project option"
  projectSheets :: "Sheet list"
  messages :: "Message list"
  inputMessage :: string
  isLoading :: bool
  isTyping :: bool
  isStreaming :: bool
  isExecutingTool :: bool
  sessionId :: "string option"

text \<open>
  What the backend answers to a \<open>GET\<close>: \<open>fetch\<close> rejects, or resolves to a
  response with its \<open>ok\<close> flag and a body, which is \<open>None\<close> when
  \<open>response.json()\<close> rejects.
\<close>

datatype 'a answer = Rejected | Answered bool "'a option"

text \<open>
  The body of the answer to \<open>/api/sheets\<close> has an optional \<open>sheets\<close> field; that
  of the answer to the session request has \<open>success\<close> and \<open>sessionId\<close>.
\<close>

record session_data =
  success :: bool
  session_sessionId :: "string option"

text \<open>
  \<open>createSession\<close> does not look at \<open>response.ok\<close>. It stores and returns the
  session id when \<open>data.success\<close> holds, and returns \<open>null\<close> otherwise and on
  every exception.
\<close>

definition createSession :: "session_data answer \<Rightarrow> chat_page \<Rightarrow> chat_page \<times> string option" where
  "createSession sessionResponse st =
     (case sessionResponse of
        Answered ok (Some body) \<Rightarrow>
          if success body
          then (st\<lparr>sessionId := session_sessionId body\<rparr>, session_sessionId body)
          else (st, None)
      | _ \<Rightarrow> (st, None))"

text \<open>The two messages the effect makes. (The welcome text holds double quotes, so the
  term is written in a cartouche.)\<close>

definition welcomeMessage :: "Project \<Rightarrow> nat \<Rightarrow> Message" where
  \<open>welcomeMessage projectData now =
     \<lparr>message_id = ''welcome'',
      content = ''Welcome to the '' @ project_name projectData
        @ '' AI Assistant! I can help you navigate and work with construction drawing sheets. Try asking me to "open sheet A2.31" or "show me slab drawings for hotel".'',
      sender = Bot, timestamp = now, sheetReference = None\<rparr>\<close>

definition errorMessage :: "nat \<Rightarrow> Message" where
  "errorMessage now =
     \<lparr>message_id = ''error'',
      content = ''Sorry, I encountered an error loading the project data. Please try again later.'',
      sender = Bot, timestamp = now, sheetReference = None\<rparr>"

text \<open>
  The effect that runs when the page is mounted (the project id of the route is never
  empty). It asks for the project, then the sheets, then a session; each failure throws,
  and the one \<open>catch\<close> replaces the messages by the error message. \<open>now\<close> is the
  time at which the message is made.
\<close>

definition fetchProjectData ::
  "Project answer \<Rightarrow> Sheet list option answer \<Rightarrow> session_data answer \<Rightarrow> nat \<Rightarrow> chat_page \<Rightarrow> chat_page" where
  "fetchProjectData projectResponse sheetsResponse sessionResponse now st =
     (case projectResponse of
        Answered True (Some projectData) \<Rightarrow>
          (case sheetsResponse of
             Answered True (Some sheetsData) \<Rightarrow>
               (case createSession sessionResponse
                       (st\<lparr>project := Some projectData,
                           projectSheets := (case sheetsData of Some l \<Rightarrow> l | None \<Rightarrow> [])\<rparr>) of
                  (st', newSessionId) \<Rightarrow>
                    if (case newSessionId of None \<Rightarrow> False | Some i \<Rightarrow> i \<noteq> [])
                    then st'\<lparr>messages := [welcomeMessage projectData now], isLoading := False\<rparr>
                    else st'\<lparr>messages := [errorMessage now], isLoading := False\<rparr>)
           | _ \<Rightarrow> st\<lparr>project := Some projectData,
                     messages := [errorMessage now], isLoading := False\<rparr>)
      | _ \<Rightarrow> st\<lparr>messages := [errorMessage now], isLoading := False\<rparr>)"

text \<open>
  The first, synchronous part of \<open>handleSendMessage\<close>: unless the input is blank, there
  is no session, or a reply is being processed, the user's text becomes a message of the
  list, with the time as its id.
\<close>

definition handleSendMessage_begin :: "nat \<Rightarrow> chat_page \<Rightarrow> chat_page" where
  "handleSendMessage_begin now st =
     (if trim (inputMessage st) = [] then st
      else if (case sessionId st of None \<Rightarrow> True | Some i \<Rightarrow> i = [])
              \<or> isTyping st \<or> isStreaming st \<or> isExecutingTool st
      then st
      else st\<lparr>messages := messages st
                  @ [\<lparr>message_id = decimal now, content = inputMessage st, sender = User,
                      timestamp = now, sheetReference = None\<rparr>],
              inputMessage := [],
              isTyping := True\<rparr>)"

text \<open>The page as mounted, with the initial values of its cells.\<close>

definition chat_mounted :: chat_page where
  "chat_mounted =
     \<lparr>project = None, projectSheets = [], messages = [], inputMessage = [],
      isLoading = True, isTyping = False, isStreaming = False, isExecutingTool = False,
      sessionId = None\<rparr>"

text \<open>The answers of a backend that is up, for a project named Tower.\<close>

definition tower_project :: Project where
  "tower_project = \<lparr>project_id = 42, project_name = ''Tower'', project_date = ''2025-06-15''\<rparr>"

definition sheets_answer :: "Sheet list option answer" where
  "sheets_answer = Answered True (Some (Some []))"

definition session_answer :: "session_data answer" where
  "session_answer = Answered True (Some \<lparr>success = True, session_sessionId = Some ''s-1''\<rparr>)"

text \<open>The page once loaded from that backend, with a request typed into the input.\<close>

definition chat_ready :: chat_page where
  "chat_ready =
     (fetchProjectData (Answered True (Some tower_project)) sheets_answer session_answer
        1750000000000 chat_mounted)\<lparr>inputMessage := ''open sheet S-1.1''\<rparr>"

chapter \<open>Properties\<close>

section \<open>The upload dialog accepts PDF only\<close>


text \<open>
  C1 (as stated, refuted): the dialog would accept SVG files as well as PDF files.
  An SVG file chosen in the picker or dropped on the dialog is rejected with the message
  "Please select a PDF file only" and the selection is cleared.
\<close>

theorem C1_svg_rejected:
  "selectedFile (handleFileSelect (Some [svg_drawing]) dialog_opened) = None
   \<and> uploadError (handleFileSelect (Some [svg_drawing]) dialog_opened)
       = Some ''Please select a PDF file only''
   \<and> selectedFile (handleDrop [svg_drawing] dialog_opened) = None
   \<and> uploadError (handleDrop [svg_drawing] dialog_opened)
       = Some ''Please select a PDF file only''"
  by (simp add: handleFileSelect_def handleDrop_def svg_drawing_def dialog_opened_def)

text \<open>
  C1 (amended): the dialog accepts PDF only. A first file of type
  \<open>application/pdf\<close> becomes the selected upload and clears the error; a first file
  of any other type, SVG included, clears the selection and sets the message
  "Please select a PDF file only". Both entry points behave alike.
\<close>

theorem C1_pdf_only:
  "(file_type f = ''application/pdf'' \<longrightarrow>
      selectedFile (handleFileSelect (Some (f # fs)) st) = Some f
    \<and> uploadError (handleFileSelect (Some (f # fs)) st) = None
    \<and> uploadSuccess (handleFileSelect (Some (f # fs)) st) = False
    \<and> selectedFile (handleDrop (f # fs) st) = Some f
    \<and> uploadError (handleDrop (f # fs) st) = None
    \<and> uploadSuccess (handleDrop (f # fs) st) = False)
   \<and> (file_type f \<noteq> ''application/pdf'' \<longrightarrow>
      selectedFile (handleFileSelect (Some (f # fs)) st) = None
    \<and> uploadError (handleFileSelect (Some (f # fs)) st) = Some ''Please select a PDF file only''
    \<and> selectedFile (handleDrop (f # fs) st) = None
    \<and> uploadError (handleDrop (f # fs) st) = Some ''Please select a PDF file only'')"
  by (simp add: handleFileSelect_def handleDrop_def)

theorem C1_pdf_only_witness:
  "selectedFile (handleFileSelect (Some [pdf_drawing]) dialog_opened) = Some pdf_drawing
   \<and> selectedFile (handleDrop [pdf_drawing] dialog_opened) = Some pdf_drawing
   \<and> selectedFile (handleDrop [svg_drawing] dialog_opened) = None"
  using C1_pdf_only [of pdf_drawing "[]" dialog_opened]
        C1_pdf_only [of svg_drawing "[]" dialog_opened]
  by (simp add: pdf_drawing_def svg_drawing_def)

section \<open>Where the displayed records come from\<close>

lemma set_getFilteredRfis: "set (getFilteredRfis st) \<subseteq> set (rfis st)"
  by (auto simp add: getFilteredRfis_def Let_def)

lemma set_getFilteredRfis_modal: "set (getFilteredRfis_modal st) \<subseteq> set (rfis st)"
  by (auto simp add: getFilteredRfis_modal_def Let_def)

text \<open>Every event leaves the active tab among the values of the four triggers.\<close>

lemma page_step_tab:
  assumes "activeRfiTab st \<in> set tabTriggers"
  shows "activeRfiTab (page_step ev st) \<in> set tabTriggers"
proof (cases ev)
  case (RfisFetched resp sheet_code_of)
  then show ?thesis
    using assms
    by (simp add: page_fetchRFIs_def Let_def
        split: rfis_response.splits rfis_body.splits bool.splits)
next
  case (TabTriggered v)
  then show ?thesis using assms by (simp add: onValueChange_def)
next
  case (EditClicked rfi)
  then show ?thesis using assms by (simp add: handleEditRfiDescription_def)
next
  case (DescriptionTyped typed)
  then show ?thesis using assms by simp
next
  case (SaveClicked rfiId resp)
  then show ?thesis
    using assms
    by (simp add: handleSaveRfiDescription_def split: option.splits patch_response.splits bool.splits)
next
  case CancelClicked
  then show ?thesis using assms by (simp add: handleCancelRfiEdit_def)
next
  case Rendered
  then show ?thesis using assms by (auto simp add: sorted_in_place_def)
qed

lemma run_page_tab: "activeRfiTab (run_page evs) \<in> set tabTriggers"
proof (induction evs rule: rev_induct)
  case Nil
  show ?case by (simp add: run_page_def page_mounted_def tabTriggers_def)
next
  case (snoc ev evs)
  then show ?case
    using page_step_tab [of "run_page evs" ev] by (simp add: run_page_def)
qed

lemma tabsContent_of_trigger:
  "activeRfiTab st \<in> set tabTriggers \<Longrightarrow> set (tabsContent tab st) \<subseteq> ShownRfi ` set (rfis st)"
  using set_getFilteredRfis [of st]
  by (auto simp add: tabsContent_def tabTriggers_def rfiTabs_def)

text \<open>
  C2 (as stated, refuted): every record displayed would come from the backend, and no list
  rendered would come from text of this repository. When the assistant page is mounted and
  the request for the project fails, nothing has been fetched, and the list of messages
  that the panel renders is the one error message whose id and text are constants of the
  page.
\<close>

theorem C2_error_message_shown:
  "project (fetchProjectData Rejected sheets_answer session_answer 1750000000000 chat_mounted) = None
   \<and> projectSheets (fetchProjectData Rejected sheets_answer session_answer 1750000000000 chat_mounted) = []
   \<and> messages (fetchProjectData Rejected sheets_answer session_answer 1750000000000 chat_mounted)
       = [\<lparr>message_id = ''error'',
           content = ''Sorry, I encountered an error loading the project data. Please try again later.'',
           sender = Bot, timestamp = 1750000000000, sheetReference = None\<rparr>]"
  by (simp add: fetchProjectData_def chat_mounted_def errorMessage_def)

text \<open>
  C2 (amended): the RFI records that the RFI page and the RFI modal display are records of
  their \<open>rfis\<close> cell, which a successful fetch fills with the list the backend
  returned. In every state the RFI page can reach from its mounting, the active tab is one
  of the four triggers, so that each tab shows records of that cell only; the constant
  \<open>mockVersionClashes\<close> belongs to the version-differences content, which no
  trigger selects. The assistant page does display messages made in the browser: the
  error message when loading the project fails, the welcome message when it succeeds, and
  the text the user sends.
\<close>

theorem C2_sources_of_lists:
  "set (tabsContent tab (run_page evs)) \<subseteq> ShownRfi ` set (rfis (run_page evs))
   \<and> activeRfiTab (run_page evs) \<in> set tabTriggers
   \<and> ''version-differences'' \<notin> set tabTriggers
   \<and> set (getFilteredRfis_modal m) \<subseteq> set (rfis m)
   \<and> rfis (page_fetchRFIs (Response True (Data (Some l))) sheet_code_of st) = l
   \<and> rfis (fetchRFIs (Response True (Data (Some l))) m) = l
   \<and> messages (fetchProjectData Rejected sheetsResponse sessionResponse now c) = [errorMessage now]
   \<and> messages (fetchProjectData (Answered False body) sheetsResponse sessionResponse now c)
       = [errorMessage now]
   \<and> messages (fetchProjectData (Answered True (Some projectData)) (Answered True (Some sheetsData))
                  (Answered ok (Some \<lparr>success = True, session_sessionId = Some (i # cs)\<rparr>)) now c)
       = [welcomeMessage projectData now]
   \<and> (trim (inputMessage c) \<noteq> [] \<and> sessionId c = Some (i # cs)
        \<and> \<not> isTyping c \<and> \<not> isStreaming c \<and> \<not> isExecutingTool c \<longrightarrow>
        messages (handleSendMessage_begin now c)
        = messages c @ [\<lparr>message_id = decimal now, content = inputMessage c, sender = User,
                          timestamp = now, sheetReference = None\<rparr>])"
proof -
  have page: "set (tabsContent tab (run_page evs)) \<subseteq> ShownRfi ` set (rfis (run_page evs))"
    by (rule tabsContent_of_trigger [OF run_page_tab])
  have fetched: "rfis (page_fetchRFIs (Response True (Data (Some l))) sheet_code_of st) = l"
       "rfis (fetchRFIs (Response True (Data (Some l))) m) = l"
    by (simp_all add: page_fetchRFIs_def fetchRFIs_def fetchRFIs_settle_def fetchRFIs_begin_def)
  have failed: "messages (fetchProjectData Rejected sheetsResponse sessionResponse now c) = [errorMessage now]"
       "messages (fetchProjectData (Answered False body) sheetsResponse sessionResponse now c)
          = [errorMessage now]"
    by (simp_all add: fetchProjectData_def)
  have greeted: "messages (fetchProjectData (Answered True (Some projectData)) (Answered True (Some sheetsData))
                  (Answered ok (Some \<lparr>success = True, session_sessionId = Some (i # cs)\<rparr>)) now c)
       = [welcomeMessage projectData now]"
    by (simp add: fetchProjectData_def createSession_def)
  have sent: "trim (inputMessage c) \<noteq> [] \<and> sessionId c = Some (i # cs)
        \<and> \<not> isTyping c \<and> \<not> isStreaming c \<and> \<not> isExecutingTool c \<longrightarrow>
        messages (handleSendMessage_begin now c)
        = messages c @ [\<lparr>message_id = decimal now, content = inputMessage c, sender = User,
                          timestamp = now, sheetReference = None\<rparr>]"
    by (simp add: handleSendMessage_begin_def)
  show ?thesis
    using page run_page_tab [of evs] set_getFilteredRfis_modal [of m] fetched failed greeted sent
    by (simp add: tabTriggers_def)
qed

theorem C2_sources_of_lists_witness:
  "activeRfiTab (run_page three_events) = ''columns''
   \<and> set (tabsContent ''columns'' (run_page three_events)) \<subseteq> ShownRfi ` set (rfis (run_page three_events))
   \<and> rfis (run_page three_events) = [column_rfi]
   \<and> messages (handleSendMessage_begin 1750000000001 chat_ready)
       = [welcomeMessage tower_project 1750000000000,
          \<lparr>message_id = decimal 1750000000001, content = ''open sheet S-1.1'', sender = User,
           timestamp = 1750000000001, sheetReference = None\<rparr>]"
proof -
  have page: "activeRfiTab (run_page three_events) = ''columns''"
       "rfis (run_page three_events) = [column_rfi]"
    by (simp_all add: run_page_def three_events_def page_mounted_def page_fetchRFIs_def
        onValueChange_def tabTriggers_def)
  have chat: "trim (inputMessage chat_ready) \<noteq> []" "sessionId chat_ready = Some ''s-1''"
       "\<not> isTyping chat_ready" "\<not> isStreaming chat_ready" "\<not> isExecutingTool chat_ready"
       "inputMessage chat_ready = ''open sheet S-1.1''"
       "messages chat_ready = [welcomeMessage tower_project 1750000000000]"
    by (simp_all add: chat_ready_def fetchProjectData_def createSession_def sheets_answer_def
        session_answer_def chat_mounted_def trim_def is_space_def)
  show ?thesis
    using C2_sources_of_lists [where tab = "''columns''" and evs = three_events and c = chat_ready
            and i = "CHR ''s''" and cs = "''-1''" and now = 1750000000001]
          page chat
    by simp
qed

section \<open>Rounding to binary64\<close>

lemma exponent_from_unique:
  assumes "2 powi (e + 52) \<le> a" and "a < 2 powi (e + 53)"
      and "- 1074 \<le> e" and "e \<le> int k - 1074"
  shows "exponent_from k a = e"
  using assms
proof (induction k)
  case 0
  then show ?case by simp
next
  case (Suc k)
  show ?case
  proof (cases "e = int k - 1073")
    case True
    then have eq: "e + 52 = int k - 1021"
      by simp
    have "2 powi (int k - 1021) \<le> a"
      using Suc.prems(1) unfolding eq .
    then show ?thesis using True by simp
  next
    case False
    then have le: "e \<le> int k - 1074"
      using Suc.prems(4) by simp
    then have "e + 53 \<le> int k - 1021"
      by simp
    then have "(2::real) powi (e + 53) \<le> 2 powi (int k - 1021)"
      by (intro power_int_increasing) simp_all
    then have "\<not> 2 powi (int k - 1021) \<le> a"
      using Suc.prems(2) by simp
    then show ?thesis
      using Suc.IH [OF Suc.prems(1,2,3) le] by simp
  qed
qed

lemma exponent_from_small:
  "a < 2 powi (- 1022) \<Longrightarrow> exponent_from k a = - 1074"
proof (induction k)
  case 0
  show ?case by simp
next
  case (Suc k)
  have "(2::real) powi (- 1022) \<le> 2 powi (int k - 1021)"
    by (intro power_int_increasing) simp_all
  then have "\<not> 2 powi (int k - 1021) \<le> a"
    using Suc.prems by simp
  then show ?case using Suc by simp
qed

lemma exponent_of_normal:
  "2 powi (e + 52) \<le> a \<Longrightarrow> a < 2 powi (e + 53) \<Longrightarrow> - 1074 \<le> e \<Longrightarrow> e \<le> 971 \<Longrightarrow>
   exponent_of a = e"
  unfolding exponent_of_def by (rule exponent_from_unique) simp_all

lemma exponent_of_subnormal: "a < 2 powi (- 1022) \<Longrightarrow> exponent_of a = - 1074"
  unfolding exponent_of_def by (rule exponent_from_small)

lemma round_even_close: "\<bar>of_int (round_even z) - z\<bar> \<le> 1 / 2"
proof -
  have "of_int \<lfloor>z\<rfloor> \<le> z" and "z < of_int \<lfloor>z\<rfloor> + 1"
    by linarith+
  then show ?thesis
    unfolding round_even_def Let_def by (auto simp add: abs_le_iff)
qed

lemma round_even_of_int: "round_even (of_int n) = n"
  unfolding round_even_def Let_def by simp

lemma scaled_error:
  assumes "0 < (b::real)"
  shows "\<bar>of_int (round_even (x / b)) * b - x\<bar> \<le> b / 2"
proof -
  have "\<bar>of_int (round_even (x / b)) - x / b\<bar> \<le> 1 / 2"
    by (rule round_even_close)
  then have "\<bar>of_int (round_even (x / b)) - x / b\<bar> * b \<le> 1 / 2 * b"
    using assms by (intro mult_right_mono) simp_all
  moreover have "\<bar>of_int (round_even (x / b)) - x / b\<bar> * b
      = \<bar>(of_int (round_even (x / b)) - x / b) * b\<bar>"
    using assms by (simp add: abs_mult)
  moreover have "(of_int (round_even (x / b)) - x / b) * b = of_int (round_even (x / b)) * b - x"
    using assms by (simp add: left_diff_distrib)
  ultimately show ?thesis
    by simp
qed

lemma binade:
  assumes "0 < (a::real)"
  obtains k where "2 powi k \<le> a" and "a < 2 powi (k + 1)"
proof -
  define k where "k = \<lfloor>log 2 a\<rfloor>"
  have "(\<lfloor>log 2 a\<rfloor> = k) = (2 powr real_of_int k \<le> a \<and> a < 2 powr real_of_int (k + 1))"
    by (rule floor_log_eq_powr_iff) (use assms in simp_all)
  moreover have "2 powr real_of_int k = 2 powi k"
    and "2 powr real_of_int (k + 1) = 2 powi (k + 1)"
    by (rule powr_real_of_int'; simp)+
  ultimately have "2 powi k \<le> a" and "a < 2 powi (k + 1)"
    using k_def by simp_all
  then show ?thesis
    using that by blast
qed

lemma round64_by_exponent:
  assumes "exponent_of \<bar>x\<bar> = e"
      and "\<bar>real_of_int (round_even (x / 2 powi e)) * 2 powi e\<bar> < 2 powi 1024"
  shows "round64 x = Num (of_int (round_even (x / 2 powi e)) * 2 powi e)"
  using assms unfolding round64_def Let_def by (auto simp add: abs_less_iff)

text \<open>
  The rounding error of a result below the overflow range: at most half a unit in the last
  place.
\<close>

lemma round64_error:
  assumes "\<bar>x\<bar> < 2 powi 1023"
  shows "\<exists>y. round64 x = Num y \<and> \<bar>y - x\<bar> \<le> \<bar>x\<bar> / 2 ^ 53 + 2 powi (- 1075)"
proof (cases "\<bar>x\<bar> < 2 powi (- 1022)")
  case True
  then have e: "exponent_of \<bar>x\<bar> = - 1074"
    by (rule exponent_of_subnormal)
  define y where "y = real_of_int (round_even (x / 2 powi (- 1074))) * 2 powi (- 1074)"
  have "\<bar>y - x\<bar> \<le> 2 powi (- 1074) / 2"
    unfolding y_def by (rule scaled_error) simp
  moreover have "(2::real) powi (- 1074) / 2 = 2 powi (- 1075)"
    using power_int_add [of "2::real" "- 1075" 1] by simp
  ultimately have err: "\<bar>y - x\<bar> \<le> 2 powi (- 1075)"
    by simp
  have "(2::real) powi (- 1022) \<le> 2 powi 1023" and "(2::real) powi (- 1075) \<le> 2 powi 1023"
    and "(2::real) powi 1024 = 2 * 2 powi 1023"
    using power_int_add [of "2::real" 1023 1]
    by (simp_all add: power_int_increasing)
  then have "\<bar>y\<bar> < 2 powi 1024"
    using True err by linarith
  then have "round64 x = Num y"
    unfolding y_def by (intro round64_by_exponent e)
  moreover have "0 \<le> \<bar>x\<bar> / 2 ^ 53"
    by simp
  ultimately show ?thesis
    using err by (intro exI [of _ y]) linarith
next
  case False
  moreover have "(0::real) < 2 powi (- 1022)"
    by simp
  ultimately have "0 < \<bar>x\<bar>"
    by linarith
  then obtain k where k: "2 powi k \<le> \<bar>x\<bar>" "\<bar>x\<bar> < 2 powi (k + 1)"
    by (rule binade)
  define e where "e = k - 52"
  have "(2::real) powi (- 1022) < 2 powi (k + 1)"
    using False k(2) by linarith
  have "- 1022 < k + 1"
  proof (rule ccontr)
    assume "\<not> - 1022 < k + 1"
    then have "(2::real) powi (k + 1) \<le> 2 powi (- 1022)"
      by (intro power_int_increasing) simp_all
    with \<open>2 powi (- 1022) < 2 powi (k + 1)\<close> show False
      by simp
  qed
  have "(2::real) powi k < 2 powi 1023"
    using assms k(1) by linarith
  have "k < 1023"
  proof (rule ccontr)
    assume "\<not> k < 1023"
    then have "(2::real) powi 1023 \<le> 2 powi k"
      by (intro power_int_increasing) simp_all
    with \<open>2 powi k < 2 powi 1023\<close> show False
      by simp
  qed
  have bracket: "2 powi (e + 52) \<le> \<bar>x\<bar>" "\<bar>x\<bar> < 2 powi (e + 53)"
    using k by (simp_all add: e_def add.commute)
  have e: "exponent_of \<bar>x\<bar> = e"
    using bracket \<open>- 1022 < k + 1\<close> \<open>k < 1023\<close>
    by (intro exponent_of_normal) (simp_all add: e_def)
  define y where "y = real_of_int (round_even (x / 2 powi e)) * 2 powi e"
  have "\<bar>y - x\<bar> \<le> 2 powi e / 2"
    unfolding y_def by (rule scaled_error) simp
  moreover have "(2::real) powi e / 2 = 2 powi (e + 52) / 2 ^ 53"
    using power_int_add [of "2::real" e 52] by simp
  moreover have "2 powi (e + 52) / 2 ^ 53 \<le> \<bar>x\<bar> / 2 ^ 53"
    using bracket(1) by (simp add: divide_right_mono)
  ultimately have err: "\<bar>y - x\<bar> \<le> \<bar>x\<bar> / 2 ^ 53"
    by linarith
  have "\<bar>x\<bar> / 2 ^ 53 \<le> \<bar>x\<bar>"
    by (simp add: field_simps)
  moreover have "(2::real) powi 1024 = 2 * 2 powi 1023"
    using power_int_add [of "2::real" 1023 1] by simp
  ultimately have "\<bar>y\<bar> < 2 powi 1024"
    using assms err by linarith
  then have "round64 x = Num y"
    unfolding y_def by (intro round64_by_exponent e)
  moreover have "(0::real) \<le> 2 powi (- 1075)"
    by simp
  ultimately show ?thesis
    using err by (intro exI [of _ y]) linarith
qed

lemma round64_not_NaN: "round64 x \<noteq> NaN"
  unfolding round64_def Let_def by simp

text \<open>The value of \<open>round64\<close> at a given input, from the exponent of its binade.\<close>

lemma round64_eval:
  assumes "2 powi (e + 52) \<le> \<bar>x\<bar>" and "\<bar>x\<bar> < 2 powi (e + 53)"
      and "- 1074 \<le> e" and "e \<le> 970"
      and "round_even (x / 2 powi e) = n" and "y = real_of_int n * 2 powi e"
  shows "round64 x = Num y"
proof -
  have e: "exponent_of \<bar>x\<bar> = e"
    using assms(1-4) by (intro exponent_of_normal) simp_all
  have "\<bar>y - x\<bar> \<le> 2 powi e / 2"
    unfolding assms(6) assms(5) [symmetric] by (rule scaled_error) simp
  moreover have "(2::real) powi e / 2 \<le> 2 powi e"
    by simp
  moreover have "(2::real) powi e \<le> 2 powi (e + 53)"
    by (intro power_int_increasing) simp_all
  moreover have "(2::real) powi (e + 53) \<le> 2 powi 1023"
    using assms(4) by (intro power_int_increasing) simp_all
  moreover have "(2::real) powi 1024 = 2 * 2 powi 1023"
    using power_int_add [of "2::real" 1023 1] by simp
  ultimately have "\<bar>y\<bar> < 2 powi 1024"
    using assms(2) by linarith
  then show ?thesis
    unfolding assms(6) assms(5) [symmetric] by (intro round64_by_exponent e)
qed

lemma round64_zero: "round64 0 = Num 0"
proof -
  have "exponent_of \<bar>0\<bar> = - 1074"
    by (rule exponent_of_subnormal) simp
  then show ?thesis
    using round64_by_exponent [of 0 "- 1074"] by (simp add: round_even_def)
qed

subsection \<open>The literals of the zoom handlers\<close>

lemma literal_0: "js_literal 0 = Num 0"
  unfolding js_literal_def by (rule round64_zero)

lemma literal_2: "js_literal 2 = Num 2"
  unfolding js_literal_def
  by (rule round64_eval [where e = "- 51" and n = 4503599627370496])
    (simp_all add: round_even_def power_int_minus)

lemma literal_5: "js_literal 5 = Num 5"
  unfolding js_literal_def
  by (rule round64_eval [where e = "- 50" and n = 5629499534213120])
    (simp_all add: round_even_def power_int_minus)

lemma literal_10: "js_literal 10 = Num 10"
  unfolding js_literal_def
  by (rule round64_eval [where e = "- 49" and n = 5629499534213120])
    (simp_all add: round_even_def power_int_minus)

lemma literal_1_25: "js_literal 1.25 = Num (5 / 4)"
  unfolding js_literal_def
  by (rule round64_eval [where e = "- 52" and n = 5629499534213120]) (simp_all add: round_even_def power_int_minus)

lemma literal_5_4: "js_literal (5 / 4) = Num (5 / 4)"
  unfolding js_literal_def
  by (rule round64_eval [where e = "- 52" and n = 5629499534213120]) (simp_all add: round_even_def power_int_minus)

lemma literal_0_8: "js_literal 0.8 = Num (3602879701896397 / 4503599627370496)"
  unfolding js_literal_def
  by (rule round64_eval [where e = "- 53" and n = 7205759403792794]) (simp_all add: round_even_def power_int_minus)

lemma literal_4_5: "js_literal (4 / 5) = Num (3602879701896397 / 4503599627370496)"
  unfolding js_literal_def
  by (rule round64_eval [where e = "- 53" and n = 7205759403792794]) (simp_all add: round_even_def power_int_minus)

lemma literal_0_05: "js_literal 0.05 = Num (3602879701896397 / 72057594037927936)"
  unfolding js_literal_def
  by (rule round64_eval [where e = "- 57" and n = 7205759403792794]) (simp_all add: round_even_def power_int_minus)

lemma literal_1_20: "js_literal (1 / 20) = Num (3602879701896397 / 72057594037927936)"
  unfolding js_literal_def
  by (rule round64_eval [where e = "- 57" and n = 7205759403792794]) (simp_all add: round_even_def power_int_minus)

lemma literal_0_1: "js_literal 0.1 = Num (3602879701896397 / 36028797018963968)"
  unfolding js_literal_def
  by (rule round64_eval [where e = "- 56" and n = 7205759403792794]) (simp_all add: round_even_def power_int_minus)

lemma literal_1_10: "js_literal (1 / 10) = Num (3602879701896397 / 36028797018963968)"
  unfolding js_literal_def
  by (rule round64_eval [where e = "- 56" and n = 7205759403792794]) (simp_all add: round_even_def power_int_minus)

lemma literal_1_1: "js_literal 1.1 = Num (2476979795053773 / 2251799813685248)"
  unfolding js_literal_def
  by (rule round64_eval [where e = "- 52" and n = 4953959590107546]) (simp_all add: round_even_def power_int_minus)

lemma literal_11_10: "js_literal (11 / 10) = Num (2476979795053773 / 2251799813685248)"
  unfolding js_literal_def
  by (rule round64_eval [where e = "- 52" and n = 4953959590107546]) (simp_all add: round_even_def power_int_minus)

section \<open>Viewport arithmetic of the SVG viewer\<close>

lemma currentSheet_update [simp]:
  "currentSheet (st\<lparr>viewStates := vs\<rparr>) = currentSheet st"
  by (simp add: currentSheet_def)

lemma currentViewState_updateViewState:
  "currentSheet st = Some sid \<Longrightarrow>
   currentViewState (updateViewState u st) = merge_updates (currentViewState st) u"
  by (simp add: updateViewState_def currentViewState_def)

subsection \<open>Clamping\<close>

lemma clamp_number:
  assumes "a \<noteq> NaN" and "lo \<le> hi"
  shows "lies_between lo hi (Math_max (Num lo) (Math_min (Num hi) a))"
  using assms by (cases a) (simp_all add: Math_max_def Math_min_def)

lemma clamp_NaN: "Math_max lo (Math_min hi NaN) = NaN"
  by (simp add: Math_max_def Math_min_def)

lemma lies_between_mono:
  "lies_between lo hi a \<Longrightarrow> lo' \<le> lo \<Longrightarrow> hi \<le> hi' \<Longrightarrow> lies_between lo' hi' a"
  by (cases a) simp_all

lemma lies_between_Num: "lies_between lo hi a \<Longrightarrow> \<exists>c. a = Num c \<and> lo \<le> c \<and> c \<le> hi"
  by (cases a) simp_all

lemma js_mul_not_NaN: "a \<noteq> NaN \<Longrightarrow> y \<noteq> 0 \<Longrightarrow> js_mul a (Num y) \<noteq> NaN"
  by (cases a) (simp_all add: round64_not_NaN)

lemma js_div_not_NaN: "a \<noteq> NaN \<Longrightarrow> y \<noteq> 0 \<Longrightarrow> js_div a (Num y) \<noteq> NaN"
  by (cases a) (simp_all add: round64_not_NaN)

text \<open>The scale that the wheel handler writes.\<close>

lemma handleWheel_scale:
  assumes "currentSheet st = Some sid" and "getPointerPosition stage = Some (px, py)"
  shows "scale (currentViewState (handleWheel deltaY stage st))
         = Math_max (js_literal 0.1) (Math_min (js_literal 5)
             (if js_less (js_literal 0) deltaY then js_div (scaleX stage) (js_literal 1.1)
              else js_mul (scaleX stage) (js_literal 1.1)))"
  using assms
  by (simp add: handleWheel_def Let_def currentViewState_updateViewState merge_updates_def)

lemma wheel_clamp:
  assumes "a \<noteq> NaN"
  shows "lies_between (1 / 10) 5
           (Math_max (js_literal 0.1) (Math_min (js_literal 5)
              (if js_less (js_literal 0) deltaY then js_div a (js_literal 1.1)
               else js_mul a (js_literal 1.1))))"
proof -
  have "(if js_less (js_literal 0) deltaY then js_div a (js_literal 1.1)
         else js_mul a (js_literal 1.1)) \<noteq> NaN"
    using assms by (simp add: literal_11_10 js_mul_not_NaN js_div_not_NaN)
  then have "lies_between (3602879701896397 / 36028797018963968) 5
           (Math_max (js_literal 0.1) (Math_min (js_literal 5)
              (if js_less (js_literal 0) deltaY then js_div a (js_literal 1.1)
               else js_mul a (js_literal 1.1))))"
    unfolding literal_0_1 literal_5 by (intro clamp_number) simp_all
  then show ?thesis
    by (rule lies_between_mono) simp_all
qed

lemma handleZoom_scale:
  assumes "currentSheet st = Some sid"
  shows "scale (currentViewState (handleZoom delta centerX centerY st))
         = Math_max (js_literal 0.05) (Math_min (js_literal 10)
             (js_mul (scale (currentViewState st))
                (if js_less (js_literal 0) delta then js_literal 1.25 else js_literal 0.8)))"
  using assms
  by (simp add: handleZoom_def Let_def currentViewState_updateViewState merge_updates_def)

lemma zoom_clamp:
  assumes "a \<noteq> NaN"
  shows "lies_between (1 / 20) 10
           (Math_max (js_literal 0.05) (Math_min (js_literal 10)
              (js_mul a (if js_less (js_literal 0) delta then js_literal 1.25 else js_literal 0.8))))"
proof -
  have "js_mul a (if js_less (js_literal 0) delta then js_literal 1.25 else js_literal 0.8) \<noteq> NaN"
    using assms by (simp add: literal_5_4 literal_4_5 js_mul_not_NaN)
  then have "lies_between (3602879701896397 / 72057594037927936) 10
           (Math_max (js_literal 0.05) (Math_min (js_literal 10)
              (js_mul a (if js_less (js_literal 0) delta then js_literal 1.25 else js_literal 0.8))))"
    unfolding literal_0_05 literal_10 by (intro clamp_number) simp_all
  then show ?thesis
    by (rule lies_between_mono) simp_all
qed

lemma js_mul_NaN [simp]: "js_mul NaN b = NaN"
  by (cases b) simp_all

lemma js_div_NaN [simp]: "js_div NaN b = NaN"
  by (cases b) simp_all

lemma currentSheet_sheet_viewer: "currentSheet (sheet_viewer v d) = Some 7"
  by (simp add: currentSheet_def sheet_viewer_def)

lemma currentViewState_sheet_viewer: "currentViewState (sheet_viewer v d) = v"
  by (simp add: currentViewState_def currentSheet_sheet_viewer) (simp add: sheet_viewer_def)

subsection \<open>A scale \<open>NaN\<close> is reachable\<close>

lemma literal_1: "js_literal 1 = Num 1"
  unfolding js_literal_def
  by (rule round64_eval [where e = "- 52" and n = 4503599627370496])
    (simp_all add: round_even_def power_int_minus)

lemma literal_100: "js_literal 100 = Num 100"
  unfolding js_literal_def
  by (rule round64_eval [where e = "- 46" and n = 7036874417766400])
    (simp_all add: round_even_def power_int_minus)

lemma comma_viewBox_dimensions:
  "viewBox_dimensions to_number comma_viewBox = \<lparr>width = NaN, height = NaN\<rparr>"
proof -
  have "split '' '' comma_viewBox = [comma_viewBox]"
    by (simp add: split_def comma_viewBox_def)
  then show ?thesis
    by (simp add: viewBox_dimensions_def element_def)
qed

text \<open>
  With a \<open>viewBox\<close> attribute written with commas, which the handler splits at
  spaces, the dimensions are undefined and the auto-fit effect writes a view state whose
  scale and position are \<open>NaN\<close>. The effect does not run again for this sheet,
  because \<open>NaN !== 1\<close> makes the view state a custom one.
\<close>

lemma autoFit_comma_viewBox: "autoFit (loaded_viewer to_number) = nan_viewer"
proof -
  have "autoFit (sheet_viewer \<lparr>scale = Num 1, translateX = Num 0, translateY = Num 0\<rparr>
                   \<lparr>width = NaN, height = NaN\<rparr>)
        = sheet_viewer \<lparr>scale = NaN, translateX = NaN, translateY = NaN\<rparr>
            \<lparr>width = NaN, height = NaN\<rparr>"
    unfolding autoFit_def currentSheet_sheet_viewer
    by (simp add: sheet_viewer_def literal_100 literal_1 literal_0 strict_neq_def
        Math_min_def js_sub_def)
  then show ?thesis
    by (simp add: loaded_viewer_def comma_viewBox_dimensions nan_viewer_def)
qed

lemma autoFit_nan_viewer: "autoFit nan_viewer = nan_viewer"
  unfolding autoFit_def nan_viewer_def currentSheet_sheet_viewer
  by (simp add: sheet_viewer_def literal_100 strict_neq_def)

text \<open>
  C4 (as stated) fails: a scale that is \<open>NaN\<close> is not clamped. With the view state
  that the auto-fit effect has just been shown to write, and the stage at the same scale,
  the zoom-in button and a wheel step both write the scale \<open>NaN\<close>, which lies in
  no interval: \<open>Math.min\<close> and \<open>Math.max\<close> return \<open>NaN\<close> when an
  argument is \<open>NaN\<close>.
\<close>

theorem C4_NaN_scale_kept:
  "scale (currentViewState (handleZoom (Num 1) None None nan_viewer)) = NaN
   \<and> scale (currentViewState (handleWheel (Num (- 1)) nan_stage nan_viewer)) = NaN
   \<and> lies_between (1 / 20) 10 (scale (currentViewState (handleZoom (Num 1) None None nan_viewer)))
       = False
   \<and> lies_between (1 / 10) 5 (scale (currentViewState (handleWheel (Num (- 1)) nan_stage nan_viewer)))
       = False"
proof -
  have sheet: "currentSheet nan_viewer = Some 7"
    unfolding nan_viewer_def by (rule currentSheet_sheet_viewer)
  have view: "scale (currentViewState nan_viewer) = NaN"
    unfolding nan_viewer_def by (simp add: currentViewState_sheet_viewer)
  have pointer: "getPointerPosition nan_stage = Some (Num 30, Num 480)"
    by (simp add: nan_stage_def)
  have stage: "scaleX nan_stage = NaN"
    by (simp add: nan_stage_def)
  have "scale (currentViewState (handleZoom (Num 1) None None nan_viewer)) = NaN"
    by (simp add: handleZoom_scale [OF sheet] view clamp_NaN)
  moreover have "scale (currentViewState (handleWheel (Num (- 1)) nan_stage nan_viewer)) = NaN"
    by (simp add: handleWheel_scale [OF sheet pointer] stage clamp_NaN)
  ultimately show ?thesis
    by simp
qed

text \<open>
  C4 (amended): both zoom operations clamp every scale that is not \<open>NaN\<close>. With a
  current sheet, the scale written by the wheel handler (when the stage reports a pointer
  position) is a finite number in \<open>[0.1, 5]\<close> for every stage scale other than
  \<open>NaN\<close>, the infinities included, and every wheel delta; the scale written by the
  zoom-button handler is the clamped binary64 product of the prior scale and the factor
  \<open>1.25\<close> (positive delta) or \<open>0.8\<close>, a finite number in \<open>[0.05, 10]\<close>
  for every prior scale other than \<open>NaN\<close>. From a scale \<open>NaN\<close> both handlers
  write the scale \<open>NaN\<close>.
\<close>

theorem C4_scale_bounds_unless_NaN:
  assumes "currentSheet st = Some sid"
  shows "(getPointerPosition stage \<noteq> None \<longrightarrow>
            (if scaleX stage = NaN
             then scale (currentViewState (handleWheel deltaY stage st)) = NaN
             else lies_between (1 / 10) 5 (scale (currentViewState (handleWheel deltaY stage st)))))
       \<and> (if scale (currentViewState st) = NaN
          then scale (currentViewState (handleZoom delta centerX centerY st)) = NaN
          else lies_between (1 / 20) 10
                 (scale (currentViewState (handleZoom delta centerX centerY st))))
       \<and> scale (currentViewState (handleZoom delta centerX centerY st))
           = Math_max (js_literal 0.05) (Math_min (js_literal 10)
               (js_mul (scale (currentViewState st))
                  (if js_less (js_literal 0) delta then js_literal 1.25 else js_literal 0.8)))"
proof -
  have wheel: "(if scaleX stage = NaN
             then scale (currentViewState (handleWheel deltaY stage st)) = NaN
             else lies_between (1 / 10) 5 (scale (currentViewState (handleWheel deltaY stage st))))"
    if pointer: "getPointerPosition stage = Some (px, py)" for px py
  proof (cases "scaleX stage = NaN")
    case True
    then show ?thesis
      unfolding handleWheel_scale [OF assms pointer] by (simp add: clamp_NaN)
  next
    case False
    show ?thesis
      unfolding handleWheel_scale [OF assms pointer]
      by (subst if_not_P [OF False]) (rule wheel_clamp [OF False])
  qed
  have zoom: "(if scale (currentViewState st) = NaN
          then scale (currentViewState (handleZoom delta centerX centerY st)) = NaN
          else lies_between (1 / 20) 10
                 (scale (currentViewState (handleZoom delta centerX centerY st))))"
  proof (cases "scale (currentViewState st) = NaN")
    case True
    then show ?thesis
      unfolding handleZoom_scale [OF assms] by (simp add: clamp_NaN)
  next
    case False
    show ?thesis
      unfolding handleZoom_scale [OF assms]
      by (subst if_not_P [OF False]) (rule zoom_clamp [OF False])
  qed
  from wheel have "getPointerPosition stage \<noteq> None \<longrightarrow>
            (if scaleX stage = NaN
             then scale (currentViewState (handleWheel deltaY stage st)) = NaN
             else lies_between (1 / 10) 5 (scale (currentViewState (handleWheel deltaY stage st))))"
    by (cases "getPointerPosition stage") auto
  then show ?thesis
    using zoom handleZoom_scale [OF assms] by (intro conjI)
qed

theorem C4_scale_bounds_unless_NaN_witness:
  "lies_between (1 / 10) 5 (scale (currentViewState (handleWheel (Num 3) wheel_stage wheel_viewer)))
   \<and> lies_between (1 / 20) 10 (scale (currentViewState (handleZoom (Num 1) None None wheel_viewer)))"
proof -
  have sheet: "currentSheet wheel_viewer = Some 7"
    unfolding wheel_viewer_def by (rule currentSheet_sheet_viewer)
  have view: "scale (currentViewState wheel_viewer) \<noteq> NaN"
    unfolding wheel_viewer_def by (simp add: currentViewState_sheet_viewer)
  have stage: "getPointerPosition wheel_stage \<noteq> None" "scaleX wheel_stage \<noteq> NaN"
    by (simp_all add: wheel_stage_def)
  note bounds = C4_scale_bounds_unless_NaN [OF sheet, of wheel_stage "Num 3" "Num 1" None None]
  have "lies_between (1 / 10) 5
          (scale (currentViewState (handleWheel (Num 3) wheel_stage wheel_viewer)))"
    using bounds [THEN conjunct1] stage by simp
  moreover have "lies_between (1 / 20) 10
          (scale (currentViewState (handleZoom (Num 1) None None wheel_viewer)))"
    using bounds [THEN conjunct2, THEN conjunct1] view by simp
  ultimately show ?thesis
    by simp
qed

subsection \<open>The point under the cursor\<close>

lemma handleWheel_view:
  assumes "currentSheet st = Some sid" and "getPointerPosition stage = Some (px, py)"
  shows "currentViewState (handleWheel deltaY stage st)
         = \<lparr>scale = scale (currentViewState (handleWheel deltaY stage st)),
            translateX = js_sub px (js_mul (mousePointTo px (stage_x stage) (scaleX stage))
                           (scale (currentViewState (handleWheel deltaY stage st)))),
            translateY = js_sub py (js_mul (mousePointTo py (stage_y stage) (scaleX stage))
                           (scale (currentViewState (handleWheel deltaY stage st))))\<rparr>"
  using assms
  by (simp add: handleWheel_def Let_def currentViewState_updateViewState merge_updates_def)

text \<open>
  C3 (as stated) fails in binary64. With the stage at scale \<open>1\<close> and position
  \<open>(0, 0)\<close>, the pointer at \<open>(30, 480)\<close> and one wheel step towards the user, the
  handler writes the scale \<open>1.1\<close> and the position \<open>(-3, -48)\<close>. The drawing
  point under the pointer was \<open>(30, 480)\<close>; computed from the new view state it is
  \<open>(29.999999999999996, 479.99999999999994)\<close>.
\<close>

theorem C3_wheel_point_moves:
  "currentViewState (handleWheel (Num (- 1)) wheel_stage wheel_viewer)
     = \<lparr>scale = Num (2476979795053773 / 2251799813685248), translateX = Num (- 3), translateY = Num (- 48)\<rparr>
   \<and> mousePointTo (Num 30) (stage_x wheel_stage) (scaleX wheel_stage) = Num 30
   \<and> mousePointTo (Num 30) (Num (- 3)) (Num (2476979795053773 / 2251799813685248))
       = Num (8444249301319679 / 281474976710656)
   \<and> mousePointTo (Num 480) (stage_y wheel_stage) (scaleX wheel_stage) = Num 480
   \<and> mousePointTo (Num 480) (Num (- 48)) (Num (2476979795053773 / 2251799813685248))
       = Num (8444249301319679 / 17592186044416)"
proof -
  have r1: "round64 (2476979795053773 / 2251799813685248) = Num (2476979795053773 / 2251799813685248)"
    by (rule round64_eval [where e = "- 52" and n = "4953959590107546"])
      (simp_all add: round_even_def power_int_minus)
  have r2: "round64 30 = Num 30"
    by (rule round64_eval [where e = "- 48" and n = "8444249301319680"])
      (simp_all add: round_even_def power_int_minus)
  have r3: "round64 (37154696925806595 / 1125899906842624) = Num 33"
    by (rule round64_eval [where e = "- 47" and n = "4644337115725824"])
      (simp_all add: round_even_def power_int_minus)
  have r4: "round64 (- 3) = Num (- 3)"
    by (rule round64_eval [where e = "- 51" and n = "- 6755399441055744"])
      (simp_all add: round_even_def power_int_minus)
  have r5: "round64 33 = Num 33"
    by (rule round64_eval [where e = "- 47" and n = "4644337115725824"])
      (simp_all add: round_even_def power_int_minus)
  have r6: "round64 (24769797950537728 / 825659931684591) = Num (8444249301319679 / 281474976710656)"
    by (rule round64_eval [where e = "- 48" and n = "8444249301319679"])
      (simp_all add: round_even_def power_int_minus)
  have r7: "round64 480 = Num 480"
    by (rule round64_eval [where e = "- 44" and n = "8444249301319680"])
      (simp_all add: round_even_def power_int_minus)
  have r8: "round64 (37154696925806595 / 70368744177664) = Num 528"
    by (rule round64_eval [where e = "- 43" and n = "4644337115725824"])
      (simp_all add: round_even_def power_int_minus)
  have r9: "round64 (- 48) = Num (- 48)"
    by (rule round64_eval [where e = "- 47" and n = "- 6755399441055744"])
      (simp_all add: round_even_def power_int_minus)
  have r10: "round64 528 = Num 528"
    by (rule round64_eval [where e = "- 43" and n = "4644337115725824"])
      (simp_all add: round_even_def power_int_minus)
  have r11: "round64 (396316767208603648 / 825659931684591) = Num (8444249301319679 / 17592186044416)"
    by (rule round64_eval [where e = "- 44" and n = "8444249301319679"])
      (simp_all add: round_even_def power_int_minus)
  have sheet: "currentSheet wheel_viewer = Some 7"
    unfolding wheel_viewer_def by (rule currentSheet_sheet_viewer)
  have pointer: "getPointerPosition wheel_stage = Some (Num 30, Num 480)"
    by (simp add: wheel_stage_def)
  have stage: "scaleX wheel_stage = Num 1" "stage_x wheel_stage = Num 0" "stage_y wheel_stage = Num 0"
    by (simp_all add: wheel_stage_def)
  have new_scale: "scale (currentViewState (handleWheel (Num (- 1)) wheel_stage wheel_viewer)) = Num (2476979795053773 / 2251799813685248)"
    unfolding handleWheel_scale [OF sheet pointer] stage literal_0 literal_0_1 literal_1_1 literal_5
    by (simp add: r1 Math_max_def Math_min_def)
  have before_x: "mousePointTo (Num 30) (Num 0) (Num 1) = Num 30"
    by (simp add: mousePointTo_def js_sub_def r2)
  have before_y: "mousePointTo (Num 480) (Num 0) (Num 1) = Num 480"
    by (simp add: mousePointTo_def js_sub_def r7)
  have new_x: "js_sub (Num 30) (js_mul (Num 30) (Num (2476979795053773 / 2251799813685248))) = Num (- 3)"
    by (simp add: js_sub_def r3 r4)
  have new_y: "js_sub (Num 480) (js_mul (Num 480) (Num (2476979795053773 / 2251799813685248))) = Num (- 48)"
    by (simp add: js_sub_def r8 r9)
  have after_x: "mousePointTo (Num 30) (Num (- 3)) (Num (2476979795053773 / 2251799813685248)) = Num (8444249301319679 / 281474976710656)"
    by (simp add: mousePointTo_def js_sub_def r5 r6)
  have after_y: "mousePointTo (Num 480) (Num (- 48)) (Num (2476979795053773 / 2251799813685248)) = Num (8444249301319679 / 17592186044416)"
    by (simp add: mousePointTo_def js_sub_def r10 r11)
  have "currentViewState (handleWheel (Num (- 1)) wheel_stage wheel_viewer)
     = \<lparr>scale = Num (2476979795053773 / 2251799813685248), translateX = Num (- 3), translateY = Num (- 48)\<rparr>"
    by (subst handleWheel_view [OF sheet pointer])
       (simp only: new_scale stage before_x before_y new_x new_y)
  then show ?thesis
    using after_x after_y before_x before_y by (simp only: stage simp_thms)
qed

text \<open>
  One coordinate of the wheel handler, for a finite new scale \<open>c\<close> in \<open>[0.1, 5]\<close>:
  six operations are rounded, none overflows, and their errors add up to at most
  \<open>2^-45 (|m| + |p|) + 2^-1070\<close>.
\<close>

lemma round64_bounded:
  assumes "\<bar>x\<bar> \<le> b" and "b \<le> 2 ^ 300"
  obtains y where "round64 x = Num y" and "\<bar>y - x\<bar> \<le> \<bar>x\<bar> / 2 ^ 53 + 2 powi (- 1075)"
    and "\<bar>y\<bar> \<le> 2 * b + 1"
proof -
  have "(2::real) ^ 300 < 2 powi 1023"
    using power_int_strict_increasing [of 300 1023 "2::real"] by simp
  then have "\<bar>x\<bar> < 2 powi 1023"
    using assms by linarith
  then obtain y where y: "round64 x = Num y" "\<bar>y - x\<bar> \<le> \<bar>x\<bar> / 2 ^ 53 + 2 powi (- 1075)"
    using round64_error [of x] by blast
  have "(2::real) powi (- 1075) \<le> 2 powi 0"
    by (intro power_int_increasing) simp_all
  then have "(2::real) powi (- 1075) \<le> 1"
    by simp
  moreover have "\<bar>x\<bar> / 2 ^ 53 \<le> \<bar>x\<bar>"
    by (simp add: field_simps)
  ultimately have "\<bar>y\<bar> \<le> 2 * b + 1"
    using y(2) assms(1) by linarith
  then show ?thesis
    using y that by blast
qed

lemma error_mono:
  fixes x :: real
  shows "y \<le> x / 2 ^ 53 + h \<Longrightarrow> x \<le> z \<Longrightarrow> y \<le> z / 2 ^ 53 + h"
  using divide_right_mono [of x z "2 ^ 53"] by simp

lemma sum_of_errors:
  fixes x :: real
  shows "a \<le> 10 * b \<Longrightarrow> x \<le> a + d \<Longrightarrow> b \<le> e \<Longrightarrow> x \<le> 10 * e + d"
  by linarith

lemma wheel_coordinate:
  assumes p: "\<bar>p\<bar> \<le> 2 ^ 100" and t: "\<bar>t\<bar> \<le> 2 ^ 100" and s: "1 / 2 ^ 100 \<le> s"
      and c: "1 / 10 \<le> c" "c \<le> 5"
  shows "\<exists>m w. mousePointTo (Num p) (Num t) (Num s) = Num m
           \<and> mousePointTo (Num p) (js_sub (Num p) (js_mul (Num m) (Num c))) (Num c) = Num w
           \<and> \<bar>w - m\<bar> \<le> (\<bar>m\<bar> + \<bar>p\<bar>) / 2 ^ 45 + 2 powi (- 1070)"
proof -
  define \<eta> :: real where "\<eta> = 2 powi (- 1075)"
  have \<eta>: "32 * \<eta> = 2 powi (- 1070)"
    using power_int_add [of "2::real" "- 1075" 5] by (simp add: \<eta>_def)
  have \<eta>0: "0 \<le> \<eta>"
    by (simp add: \<eta>_def)
  have "(0::real) < 1 / 2 ^ 100"
    by simp
  then have spos: "0 < s"
    using s by linarith
  have cpos: "0 < c"
    using c by simp
  \<comment> \<open>\<open>pointer - stage position\<close>\<close>
  have "\<bar>p - t\<bar> \<le> 2 ^ 101"
    using p t by simp
  then obtain d where d: "round64 (p - t) = Num d" and dB: "\<bar>d\<bar> \<le> 2 * 2 ^ 101 + 1"
    by (rule round64_bounded) simp_all
  \<comment> \<open>\<open>/ oldScale\<close>\<close>
  have "\<bar>d\<bar> / s \<le> \<bar>d\<bar> / (1 / 2 ^ 100)"
    using s by (intro divide_left_mono) simp_all
  then have "\<bar>d / s\<bar> \<le> 2 ^ 203"
    using dB spos by simp
  then obtain m where m: "round64 (d / s) = Num m" and mB: "\<bar>m\<bar> \<le> 2 * 2 ^ 203 + 1"
    by (rule round64_bounded) simp_all
  have before: "mousePointTo (Num p) (Num t) (Num s) = Num m"
    using spos by (simp add: mousePointTo_def js_sub_def d m)
  \<comment> \<open>\<open>* clampedScale\<close>\<close>
  have "\<bar>m\<bar> * c \<le> \<bar>m\<bar> * 5"
    using c by (intro mult_left_mono) simp_all
  then have mc: "\<bar>m * c\<bar> \<le> 5 * \<bar>m\<bar>"
    using cpos by (simp add: abs_mult)
  then have "\<bar>m * c\<bar> \<le> 2 ^ 207"
    using mB by simp
  then obtain q where q: "round64 (m * c) = Num q"
    and qE: "\<bar>q - m * c\<bar> \<le> \<bar>m * c\<bar> / 2 ^ 53 + \<eta>" and qB: "\<bar>q\<bar> \<le> 2 * 2 ^ 207 + 1"
    unfolding \<eta>_def by (rule round64_bounded) simp_all
  \<comment> \<open>\<open>pointer - ...\<close>: the new stage position\<close>
  have "\<bar>p - q\<bar> \<le> 2 ^ 209"
    using p qB by simp
  then obtain t' where t': "round64 (p - q) = Num t'"
    and tE: "\<bar>t' - (p - q)\<bar> \<le> \<bar>p - q\<bar> / 2 ^ 53 + \<eta>" and tB: "\<bar>t'\<bar> \<le> 2 * 2 ^ 209 + 1"
    unfolding \<eta>_def by (rule round64_bounded) simp_all
  \<comment> \<open>the drawing point under the pointer, from the new view state\<close>
  have "\<bar>p - t'\<bar> \<le> 2 ^ 211"
    using p tB by simp
  then obtain r where r: "round64 (p - t') = Num r"
    and rE: "\<bar>r - (p - t')\<bar> \<le> \<bar>p - t'\<bar> / 2 ^ 53 + \<eta>" and rB: "\<bar>r\<bar> \<le> 2 * 2 ^ 211 + 1"
    unfolding \<eta>_def by (rule round64_bounded) simp_all
  have "\<bar>r\<bar> / c \<le> \<bar>r\<bar> / (1 / 10)"
    using c by (intro divide_left_mono) simp_all
  then have rc: "\<bar>r / c\<bar> \<le> 10 * \<bar>r\<bar>"
    using cpos by simp
  then have "\<bar>r / c\<bar> \<le> 2 ^ 216"
    using rB by simp
  then obtain w where w: "round64 (r / c) = Num w"
    and wE: "\<bar>w - r / c\<bar> \<le> \<bar>r / c\<bar> / 2 ^ 53 + \<eta>"
    unfolding \<eta>_def by (rule round64_bounded) simp_all
  have after: "mousePointTo (Num p) (js_sub (Num p) (js_mul (Num m) (Num c))) (Num c) = Num w"
    using cpos by (simp add: mousePointTo_def js_sub_def q t' r w)
  \<comment> \<open>the four rounding errors\<close>
  define e1 where "e1 = q - m * c"
  define e2 where "e2 = t' - (p - q)"
  define e3 where "e3 = r - (p - t')"
  define e4 where "e4 = w - r / c"
  have "r = m * c + (e1 - e2 + e3)"
    by (simp add: e1_def e2_def e3_def)
  then have "r / c = m + (e1 - e2 + e3) / c"
    using cpos by (simp add: field_simps)
  then have diff: "w - m = (e1 - e2 + e3) / c + e4"
    by (simp add: e4_def)
  have "\<bar>e1 - e2 + e3\<bar> / c \<le> \<bar>e1 - e2 + e3\<bar> / (1 / 10)"
    using c by (intro divide_left_mono) simp_all
  then have "\<bar>(e1 - e2 + e3) / c\<bar> \<le> 10 * \<bar>e1 - e2 + e3\<bar>"
    using cpos by simp
  moreover have "\<bar>(e1 - e2 + e3) / c + e4\<bar> \<le> \<bar>(e1 - e2 + e3) / c\<bar> + \<bar>e4\<bar>"
    by (rule abs_triangle_ineq)
  moreover have "\<bar>e1 - e2 + e3\<bar> \<le> \<bar>e1\<bar> + \<bar>e2\<bar> + \<bar>e3\<bar>"
    by linarith
  ultimately have total: "\<bar>w - m\<bar> \<le> 10 * (\<bar>e1\<bar> + \<bar>e2\<bar> + \<bar>e3\<bar>) + \<bar>e4\<bar>"
    unfolding diff by (rule sum_of_errors)
  have E1: "\<bar>e1\<bar> \<le> 5 * \<bar>m\<bar> / 2 ^ 53 + \<eta>"
    unfolding e1_def by (rule error_mono [OF qE mc])
  have Q: "\<bar>q\<bar> \<le> 5 * \<bar>m\<bar> + \<bar>e1\<bar>"
    using mc unfolding e1_def by linarith
  have E2: "\<bar>e2\<bar> \<le> (\<bar>p\<bar> + \<bar>q\<bar>) / 2 ^ 53 + \<eta>"
    unfolding e2_def by (rule error_mono [OF tE abs_triangle_ineq4])
  have "p - t' = q - e2"
    by (simp add: e2_def)
  then have "\<bar>r - (p - t')\<bar> \<le> \<bar>q - e2\<bar> / 2 ^ 53 + \<eta>"
    using rE by simp
  then have E3: "\<bar>e3\<bar> \<le> (\<bar>q\<bar> + \<bar>e2\<bar>) / 2 ^ 53 + \<eta>"
    unfolding e3_def by (rule error_mono [OF _ abs_triangle_ineq4])
  have R: "\<bar>r\<bar> \<le> \<bar>q\<bar> + \<bar>e2\<bar> + \<bar>e3\<bar>"
    using \<open>p - t' = q - e2\<close> unfolding e3_def by linarith
  have E4: "\<bar>e4\<bar> \<le> 10 * \<bar>r\<bar> / 2 ^ 53 + \<eta>"
    unfolding e4_def by (rule error_mono [OF wE rc])
  define A where "A = \<bar>m\<bar>"
  define P where "P = \<bar>p\<bar>"
  define Q' where "Q' = \<bar>q\<bar>"
  define R' where "R' = \<bar>r\<bar>"
  define a1 where "a1 = \<bar>e1\<bar>"
  define a2 where "a2 = \<bar>e2\<bar>"
  define a3 where "a3 = \<bar>e3\<bar>"
  define a4 where "a4 = \<bar>e4\<bar>"
  have nonneg: "0 \<le> A" "0 \<le> P"
    by (simp_all add: A_def P_def)
  have "10 * (a1 + a2 + a3) + a4 \<le> (A + P) / 2 ^ 45 + 32 * \<eta>"
    using E1 Q E2 E3 R E4 \<eta>0 nonneg
    unfolding A_def [symmetric] P_def [symmetric] Q'_def [symmetric] R'_def [symmetric]
      a1_def [symmetric] a2_def [symmetric] a3_def [symmetric] a4_def [symmetric]
    by simp argo
  then have "\<bar>w - m\<bar> \<le> (\<bar>m\<bar> + \<bar>p\<bar>) / 2 ^ 45 + 2 powi (- 1070)"
    using total unfolding \<eta> A_def P_def a1_def a2_def a3_def a4_def by linarith
  then show ?thesis
    using before after by blast
qed

text \<open>
  C3 (amended): wheel zoom keeps the drawing point under the cursor fixed up to rounding.
  With a current sheet, a pointer position \<open>(px, py)\<close> and a stage position
  \<open>(tx, ty)\<close> of magnitude at most \<open>2^100\<close> and an old stage scale
  \<open>s \<ge> 2^-100\<close>, the drawing point \<open>(p - t) / s\<close> that the handler computes
  under the pointer and the same expression computed from the view state \<open>(s', t')\<close>
  that it writes are finite numbers \<open>m\<close> and \<open>w\<close> with
  \<open>|w - m| \<le> 2^-45 (|m| + |p|) + 2^-1070\<close> in both coordinates, for every wheel
  delta.
\<close>

theorem C3_wheel_point_up_to_rounding:
  assumes "currentSheet st = Some sid"
      and "getPointerPosition stage = Some (Num px, Num py)"
      and "scaleX stage = Num s" and "stage_x stage = Num tx" and "stage_y stage = Num ty"
      and "1 / 2 ^ 100 \<le> s"
      and "\<bar>px\<bar> \<le> 2 ^ 100" and "\<bar>py\<bar> \<le> 2 ^ 100"
      and "\<bar>tx\<bar> \<le> 2 ^ 100" and "\<bar>ty\<bar> \<le> 2 ^ 100"
  shows "\<exists>mx my wx wy.
           mousePointTo (Num px) (stage_x stage) (scaleX stage) = Num mx
         \<and> mousePointTo (Num py) (stage_y stage) (scaleX stage) = Num my
         \<and> mousePointTo (Num px)
               (translateX (currentViewState (handleWheel deltaY stage st)))
               (scale (currentViewState (handleWheel deltaY stage st))) = Num wx
         \<and> mousePointTo (Num py)
               (translateY (currentViewState (handleWheel deltaY stage st)))
               (scale (currentViewState (handleWheel deltaY stage st))) = Num wy
         \<and> \<bar>wx - mx\<bar> \<le> (\<bar>mx\<bar> + \<bar>px\<bar>) / 2 ^ 45 + 2 powi (- 1070)
         \<and> \<bar>wy - my\<bar> \<le> (\<bar>my\<bar> + \<bar>py\<bar>) / 2 ^ 45 + 2 powi (- 1070)"
proof -
  have "scaleX stage \<noteq> NaN"
    using assms(3) by simp
  then have "lies_between (1 / 10) 5 (scale (currentViewState (handleWheel deltaY stage st)))"
    unfolding handleWheel_scale [OF assms(1,2)] by (rule wheel_clamp)
  then obtain c where c: "scale (currentViewState (handleWheel deltaY stage st)) = Num c"
    and bounds: "1 / 10 \<le> c" "c \<le> 5"
    using lies_between_Num by blast
  obtain mx wx where x: "mousePointTo (Num px) (Num tx) (Num s) = Num mx"
      "mousePointTo (Num px) (js_sub (Num px) (js_mul (Num mx) (Num c))) (Num c) = Num wx"
      "\<bar>wx - mx\<bar> \<le> (\<bar>mx\<bar> + \<bar>px\<bar>) / 2 ^ 45 + 2 powi (- 1070)"
    using wheel_coordinate [OF assms(7) assms(9) assms(6) bounds] by blast
  obtain my wy where y: "mousePointTo (Num py) (Num ty) (Num s) = Num my"
      "mousePointTo (Num py) (js_sub (Num py) (js_mul (Num my) (Num c))) (Num c) = Num wy"
      "\<bar>wy - my\<bar> \<le> (\<bar>my\<bar> + \<bar>py\<bar>) / 2 ^ 45 + 2 powi (- 1070)"
    using wheel_coordinate [OF assms(8) assms(10) assms(6) bounds] by blast
  have view: "translateX (currentViewState (handleWheel deltaY stage st))
                = js_sub (Num px) (js_mul (Num mx) (Num c))"
             "translateY (currentViewState (handleWheel deltaY stage st))
                = js_sub (Num py) (js_mul (Num my) (Num c))"
    by (subst handleWheel_view [OF assms(1,2)], simp add: assms(3-5) x(1) y(1) c)+
  show ?thesis
    unfolding view c assms(3-5) using x y by blast
qed

theorem C3_wheel_point_up_to_rounding_witness:
  "\<exists>mx my wx wy.
     mousePointTo (Num 30) (stage_x wheel_stage) (scaleX wheel_stage) = Num mx
   \<and> mousePointTo (Num 480) (stage_y wheel_stage) (scaleX wheel_stage) = Num my
   \<and> mousePointTo (Num 30)
         (translateX (currentViewState (handleWheel (Num (- 1)) wheel_stage wheel_viewer)))
         (scale (currentViewState (handleWheel (Num (- 1)) wheel_stage wheel_viewer))) = Num wx
   \<and> mousePointTo (Num 480)
         (translateY (currentViewState (handleWheel (Num (- 1)) wheel_stage wheel_viewer)))
         (scale (currentViewState (handleWheel (Num (- 1)) wheel_stage wheel_viewer))) = Num wy
   \<and> \<bar>wx - mx\<bar> \<le> (\<bar>mx\<bar> + \<bar>30\<bar>) / 2 ^ 45 + 2 powi (- 1070)
   \<and> \<bar>wy - my\<bar> \<le> (\<bar>my\<bar> + \<bar>480\<bar>) / 2 ^ 45 + 2 powi (- 1070)"
proof -
  have sheet: "currentSheet wheel_viewer = Some 7"
    unfolding wheel_viewer_def by (rule currentSheet_sheet_viewer)
  have pointer: "getPointerPosition wheel_stage = Some (Num 30, Num 480)"
    by (simp add: wheel_stage_def)
  have stage: "scaleX wheel_stage = Num 1" "stage_x wheel_stage = Num 0" "stage_y wheel_stage = Num 0"
    by (simp_all add: wheel_stage_def)
  have ranges: "1 / 2 ^ 100 \<le> (1::real)" "\<bar>30::real\<bar> \<le> 2 ^ 100" "\<bar>480::real\<bar> \<le> 2 ^ 100"
    "\<bar>0::real\<bar> \<le> 2 ^ 100"
    by simp_all
  show ?thesis
    by (rule C3_wheel_point_up_to_rounding
          [OF sheet pointer stage ranges(1) ranges(2) ranges(3) ranges(4) ranges(4)])
qed



section \<open>The RFI modal when its fetch fails\<close>

lemma fetchRFIs_failed:
  "fetch_failed resp \<Longrightarrow>
   fetchRFIs resp st = st\<lparr>loading := False, error := Some ''Failed to load RFIs''\<rparr>"
  by (cases resp rule: fetch_failed.cases)
     (simp_all add: fetchRFIs_def fetchRFIs_settle_def fetchRFIs_begin_def split: bool.splits)

text \<open>
  C6 (as stated, refuted): "Try Again" would be the only way to fetch again after a
  failure. The modal's effect on \<open>[isOpen, projectId]\<close> fetches as well: in the failed
  modal the message stays while it is closed, and reopening it sends the same request and
  clears the message, with no click on "Try Again".
\<close>

theorem C6_reopen_refetches:
  "error modal_failed = Some ''Failed to load RFIs''
   \<and> error (fst (modal_step (Props False ''42'') modal_failed)) = Some ''Failed to load RFIs''
   \<and> snd (modal_step (Props False ''42'') modal_failed) = []
   \<and> snd (modal_step (Props True ''42'') (fst (modal_step (Props False ''42'') modal_failed)))
       = [GetRfis ''42'']
   \<and> error (fst (modal_step (Props True ''42'') (fst (modal_step (Props False ''42'') modal_failed))))
       = None"
  by (simp add: modal_failed_def modal_opened_def modal_mounted_def fetchRFIs_begin_def
      fetchRFIs_settle_def)

text \<open>
  C6 (amended): when the fetch fails (the request throws, the response is not ok, or its
  body cannot be read), the modal sets the message "Failed to load RFIs", keeps the list it
  had, and clears the loading flag. Settling sends no request: there is no automatic retry.
  From the failed state a request is sent only by a click on "Try Again" or by the effect
  that runs when the props change (the modal is reopened, or the project changes), and it
  is the same request. In an open modal "Try Again" starts the same fetch again.
\<close>

theorem C6_fetch_failure:
  assumes "fetch_failed resp"
  shows "rfis (fetchRFIs resp st) = rfis st
       \<and> error (fetchRFIs resp st) = Some ''Failed to load RFIs''
       \<and> loading (fetchRFIs resp st) = False
       \<and> snd (modal_step (Settled resp) (fetchRFIs_begin st)) = []
       \<and> (snd (modal_step ev (fetchRFIs resp st)) \<noteq> [] \<longrightarrow>
             (ev = ClickTryAgain \<or> (\<exists>opn pid. ev = Props opn pid))
           \<and> snd (modal_step ev (fetchRFIs resp st))
               = [GetRfis (projectId (fst (modal_step ev (fetchRFIs resp st))))])
       \<and> (isOpen st \<longrightarrow>
             modal_step ClickTryAgain (fetchRFIs resp st)
             = (fetchRFIs_begin (fetchRFIs resp st), [GetRfis (projectId st)]))"
proof -
  note f = fetchRFIs_failed [OF assms, of st]
  have step: "snd (modal_step ev (fetchRFIs resp st)) \<noteq> [] \<longrightarrow>
             (ev = ClickTryAgain \<or> (\<exists>opn pid. ev = Props opn pid))
           \<and> snd (modal_step ev (fetchRFIs resp st))
               = [GetRfis (projectId (fst (modal_step ev (fetchRFIs resp st))))]"
    by (cases ev) (simp_all add: f Let_def fetchRFIs_begin_def)
  have again: "isOpen st \<longrightarrow>
             modal_step ClickTryAgain (fetchRFIs resp st)
             = (fetchRFIs_begin (fetchRFIs resp st), [GetRfis (projectId st)])"
    by (simp add: f try_again_shown_def)
  show ?thesis
    using step again by (simp add: f)
qed

theorem C6_fetch_failure_witness:
  "rfis (fetchRFIs (Response False (Data None)) modal_opened) = []
   \<and> error (fetchRFIs (Response False (Data None)) modal_opened) = Some ''Failed to load RFIs''
   \<and> loading (fetchRFIs (Response False (Data None)) modal_opened) = False
   \<and> modal_step ClickTryAgain (fetchRFIs (Response False (Data None)) modal_opened)
       = (fetchRFIs_begin (fetchRFIs (Response False (Data None)) modal_opened), [GetRfis ''42''])"
proof -
  have failed: "fetch_failed (Response False (Data None))"
    by simp
  have opened: "isOpen modal_opened" "projectId modal_opened = ''42''" "rfis modal_opened = []"
    by (simp_all add: modal_opened_def modal_mounted_def fetchRFIs_begin_def)
  show ?thesis
    using C6_fetch_failure [OF failed, of modal_opened ClickTryAgain] opened
    by simp
qed

section \<open>Final state of the OAuth callback page\<close>

lemma settle_exchange_status:
  "fst (settle_exchange r) = (if exchange_succeeds r then Status_success else Status_error)"
  by (cases r rule: settle_exchange.cases) simp_all

lemma settle_exchange_message:
  "exchange_succeeds r \<Longrightarrow>
   snd (settle_exchange r) = ''Successfully authenticated with Procore! You can now export RFIs.''"
  by (cases r rule: settle_exchange.cases) simp_all

text \<open>
  C7 (as stated, refuted): the page would end in the error state exactly when the URL has
  an \<open>error\<close> parameter, or no \<open>code\<close> parameter, or the token exchange is not ok or
  throws, and in the success state exactly when the token-exchange response is ok. Three
  inputs against it, the backend answering ok each time: a URL with an empty \<open>code\<close>
  parameter ends in the error state; a URL with an empty \<open>error\<close> parameter and a code
  ends in the success state; and an ok response whose body is not JSON ends in the error
  state.
\<close>

theorem C7_counterexample:
  "fst (handleCallback \<lparr>oauth_code = Some [], oauth_error = None, oauth_state = None\<rparr>
          backend_ok exchange_ok) = Status_error
   \<and> fst (handleCallback \<lparr>oauth_code = Some ''abc'', oauth_error = Some [], oauth_state = None\<rparr>
          backend_ok exchange_ok) = Status_success
   \<and> fst (handleCallback \<lparr>oauth_code = Some ''abc'', oauth_error = None, oauth_state = None\<rparr>
          backend_ok exchange_not_json) = Status_error"
  by (simp add: handleCallback_def truthy_def backend_ok_def exchange_ok_def exchange_not_json_def)

text \<open>
  C7 (amended): the page ends in the success state, with the message that RFIs can now be
  exported, exactly when the \<open>error\<close> parameter is absent or empty, the \<open>code\<close>
  parameter is present and not empty, the first request returns, and the token exchange
  returns an ok response whose body parses as JSON. In every other case it ends in the error
  state: a non-empty \<open>error\<close> parameter, an absent or empty \<open>code\<close>, a request that
  throws, a response that is not ok, or an ok response with an unreadable body. It never
  stays in the loading state.
\<close>

theorem C7_final_status:
  "(fst (handleCallback params bare exchange) = Status_success
      \<longleftrightarrow> \<not> truthy (oauth_error params) \<and> truthy (oauth_code params) \<and> fetch_returns bare
          \<and> exchange_succeeds (exchange (fst (exchange_query params)) (snd (exchange_query params))))
   \<and> (fst (handleCallback params bare exchange) = Status_error
      \<longleftrightarrow> truthy (oauth_error params) \<or> \<not> truthy (oauth_code params) \<or> \<not> fetch_returns bare
          \<or> \<not> exchange_succeeds (exchange (fst (exchange_query params)) (snd (exchange_query params))))
   \<and> fst (handleCallback params bare exchange) \<noteq> Status_loading
   \<and> (fst (handleCallback params bare exchange) = Status_success
      \<longrightarrow> snd (handleCallback params bare exchange)
          = ''Successfully authenticated with Procore! You can now export RFIs.'')"
proof -
  define r where "r = exchange (fst (exchange_query params)) (snd (exchange_query params))"
  have h: "handleCallback params bare exchange =
     (if truthy (oauth_error params)
      then (Status_error, ''OAuth error: '' @ (case oauth_error params of Some e \<Rightarrow> e | None \<Rightarrow> []))
      else if \<not> truthy (oauth_code params) then (Status_error, ''No authorization code received'')
      else if \<not> fetch_returns bare then (Status_error, snd (handleCallback params bare exchange))
      else settle_exchange r)"
    by (cases bare) (simp_all add: handleCallback_def r_def exchange_query_def)
  have st: "fst (handleCallback params bare exchange) =
     (if \<not> truthy (oauth_error params) \<and> truthy (oauth_code params) \<and> fetch_returns bare
         \<and> exchange_succeeds r
      then Status_success else Status_error)"
    by (subst h) (simp add: settle_exchange_status)
  have msg: "fst (handleCallback params bare exchange) = Status_success \<longrightarrow>
     snd (handleCallback params bare exchange)
       = ''Successfully authenticated with Procore! You can now export RFIs.''"
    unfolding st by (subst h) (simp add: settle_exchange_message)
  show ?thesis
    using msg unfolding r_def [symmetric] st by simp
qed

theorem C7_final_status_witness:
  "handleCallback \<lparr>oauth_code = Some ''abc'', oauth_error = None, oauth_state = Some ''xyz''\<rparr>
      backend_ok exchange_abc_xyz
    = (Status_success, ''Successfully authenticated with Procore! You can now export RFIs.'')"
proof -
  let ?p = "\<lparr>oauth_code = Some ''abc'', oauth_error = None, oauth_state = Some ''xyz''\<rparr>"
  have ok: "\<not> truthy (oauth_error ?p) \<and> truthy (oauth_code ?p) \<and> fetch_returns backend_ok
          \<and> exchange_succeeds (exchange_abc_xyz (fst (exchange_query ?p)) (snd (exchange_query ?p)))"
    by (simp add: truthy_def backend_ok_def exchange_query_def exchange_abc_xyz_def)
  show ?thesis
    using C7_final_status [of ?p backend_ok exchange_abc_xyz] ok
    by (metis prod.collapse)
qed

section \<open>The description round trip\<close>


















section \<open>Sheet comparisons\<close>

subsection \<open>Grouping\<close>

lemma map_fst_push_sheet: "map fst (push_sheet k s obj) = map fst obj"
  by (induction obj) (auto simp add: push_sheet_def)

lemma map_of_push_sheet:
  "map_of (push_sheet k s obj) c
   = (if c = k then map_option (\<lambda>arr. arr @ [s]) (map_of obj c) else map_of obj c)"
  by (induction obj) (auto simp add: push_sheet_def)

lemma map_of_snoc:
  "map_of (obj @ [(k, v)]) c
   = (case map_of obj c of Some x \<Rightarrow> Some x | None \<Rightarrow> if c = k then Some v else None)"
  by (induction obj) auto

text \<open>
  When no sheet code is the name of a property of \<open>Object.prototype\<close>, grouping
  returns an object whose keys are distinct and whose entry for a code lists the sheets of
  that code, in order, after what the entry held before.
\<close>

lemma group_sheets_ok:
  assumes "\<forall>s \<in> set ss. code s \<notin> set object_prototype_keys"
      and "distinct (map fst obj)"
  shows "\<exists>obj'. group_sheets ss obj = Inr obj' \<and> distinct (map fst obj')
           \<and> (\<forall>c. map_of obj' c =
                 (case map_of obj c of
                    Some arr \<Rightarrow> Some (arr @ filter (\<lambda>s. code s = c) ss)
                  | None \<Rightarrow> if c \<in> code ` set ss
                            then Some (filter (\<lambda>s. code s = c) ss) else None))"
  using assms
proof (induction ss arbitrary: obj)
  case Nil
  then show ?case by (auto split: option.splits)
next
  case (Cons s ss)
  have protos: "\<forall>s \<in> set ss. code s \<notin> set object_prototype_keys"
    and here: "code s \<notin> set object_prototype_keys"
    using Cons.prems(1) by simp_all
  show ?case
  proof (cases "map_of obj (code s)")
    case (Some arr)
    let ?obj1 = "push_sheet (code s) s obj"
    have d1: "distinct (map fst ?obj1)"
      using Cons.prems(2) by (simp add: map_fst_push_sheet)
    obtain obj' where g: "group_sheets ss ?obj1 = Inr obj'" and d: "distinct (map fst obj')"
      and m: "\<And>c. map_of obj' c =
                 (case map_of ?obj1 c of
                    Some arr \<Rightarrow> Some (arr @ filter (\<lambda>s. code s = c) ss)
                  | None \<Rightarrow> if c \<in> code ` set ss
                            then Some (filter (\<lambda>s. code s = c) ss) else None)"
      using Cons.IH [OF protos d1] by blast
    have "group_sheets (s # ss) obj = Inr obj'"
      using Some g by simp
    moreover have "map_of obj' c =
                 (case map_of obj c of
                    Some arr \<Rightarrow> Some (arr @ filter (\<lambda>x. code x = c) (s # ss))
                  | None \<Rightarrow> if c \<in> code ` set (s # ss)
                            then Some (filter (\<lambda>x. code x = c) (s # ss)) else None)" for c
      using Some by (auto simp add: m map_of_push_sheet split: option.splits)
    ultimately show ?thesis using d by blast
  next
    case None
    let ?obj1 = "obj @ [(code s, [s])]"
    have "code s \<notin> fst ` set obj"
      using None by (simp add: map_of_eq_None_iff)
    then have d1: "distinct (map fst ?obj1)"
      using Cons.prems(2) by simp
    obtain obj' where g: "group_sheets ss ?obj1 = Inr obj'" and d: "distinct (map fst obj')"
      and m: "\<And>c. map_of obj' c =
                 (case map_of ?obj1 c of
                    Some arr \<Rightarrow> Some (arr @ filter (\<lambda>s. code s = c) ss)
                  | None \<Rightarrow> if c \<in> code ` set ss
                            then Some (filter (\<lambda>s. code s = c) ss) else None)"
      using Cons.IH [OF protos d1] by blast
    have "group_sheets (s # ss) obj = Inr obj'"
      using None here g by simp
    moreover have "map_of obj' c =
                 (case map_of obj c of
                    Some arr \<Rightarrow> Some (arr @ filter (\<lambda>x. code x = c) (s # ss))
                  | None \<Rightarrow> if c \<in> code ` set (s # ss)
                            then Some (filter (\<lambda>x. code x = c) (s # ss)) else None)" for c
      using None by (auto simp add: m map_of_snoc split: option.splits)
    ultimately show ?thesis using d by blast
  qed
qed

subsection \<open>The order of the entries does not change what they are\<close>

lemma set_entries: "set (entries obj) = set obj"
  by (auto simp add: entries_def)

lemma distinct_entries:
  assumes "distinct (map fst obj)"
  shows "distinct (map fst (entries obj))"
proof -
  have d: "distinct obj" and inj: "inj_on fst (set obj)"
    using assms by (simp_all add: distinct_map)
  have "distinct (entries obj)"
    using d by (auto simp add: entries_def)
  moreover have "inj_on fst (set (entries obj))"
    using inj by (simp add: set_entries)
  ultimately show ?thesis
    by (simp add: distinct_map)
qed

subsection \<open>From entries to comparisons\<close>

lemma set_unique [simp]: "set (unique xs) = set xs"
  by (simp add: unique_def)

lemma distinct_unique [simp]: "distinct (unique xs)"
  by (simp add: unique_def)

lemma length_unique_gt_1: "1 < length (unique xs) \<longleftrightarrow> (\<exists>a \<in> set xs. \<exists>b \<in> set xs. a \<noteq> b)"
proof -
  have "length (unique xs) = card (set xs)"
    using distinct_card [of "unique xs"] by simp
  moreover have "1 < card (set xs) \<longleftrightarrow> (\<exists>a \<in> set xs. \<exists>b \<in> set xs. a \<noteq> b)"
    by (metis List.finite_set One_nat_def card_le_Suc0_iff_eq not_less)
  ultimately show ?thesis by simp
qed

lemma several_documents_ids:
  "several_documents codeSheets \<longleftrightarrow>
     (\<exists>a \<in> set (map documentId codeSheets). \<exists>b \<in> set (map documentId codeSheets). a \<noteq> b)"
  unfolding several_documents_def set_map by blast

lemma comparison_of_eq:
  "comparison_of allDocuments (k, codeSheets) =
     (if several_documents codeSheets
      then [\<lparr>sheetCode = k,
             documents = map (compared_document allDocuments codeSheets)
                           (unique (map documentId codeSheets))\<rparr>]
      else [])"
proof (cases "several_documents codeSheets")
  case True
  then have u: "1 < length (unique (map documentId codeSheets))"
    unfolding length_unique_gt_1 several_documents_ids .
  have "length (unique (map documentId codeSheets)) \<le> length codeSheets"
    using distinct_card [of "unique (map documentId codeSheets)"] card_length [of "map documentId codeSheets"]
    by simp
  then have "1 < length codeSheets"
    using u by simp
  then show ?thesis
    using True u by (simp add: comparison_of_def)
next
  case False
  then have "\<not> 1 < length (unique (map documentId codeSheets))"
    unfolding length_unique_gt_1 several_documents_ids .
  then show ?thesis
    using False by (simp add: comparison_of_def Let_def)
qed

lemma sheetCodes_of_comparisons:
  "map sheetCode (concat (map (comparison_of allDocuments) xs))
   = map fst (filter (\<lambda>(k, codeSheets). several_documents codeSheets) xs)"
  by (induction xs) (auto simp add: comparison_of_eq)

lemma comparison_from_entry:
  assumes "comparison \<in> set (concat (map (comparison_of allDocuments) xs))"
  shows "\<exists>codeSheets. (sheetCode comparison, codeSheets) \<in> set xs \<and> several_documents codeSheets
           \<and> documents comparison = map (compared_document allDocuments codeSheets)
                                 (unique (map documentId codeSheets))"
  using assms by (induction xs) (auto simp add: comparison_of_eq split: if_splits)

lemma compared_document_ids:
  "map comparedDocumentId (map (compared_document allDocuments codeSheets) ids) = ids"
  by (induction ids) (simp_all add: compared_document_def)

text \<open>
  The characterisation, for sheet codes that are not names of properties of
  \<open>Object.prototype\<close>: the function returns one comparison for each code that occurs
  on sheets of two different documents and none for any other code, and the documents of a
  comparison are, once each, the documents that have a sheet of its code.
\<close>

lemma analyzeSheetComparisons_characterisation:
  assumes "\<forall>s \<in> set allSheets. code s \<notin> set object_prototype_keys"
  shows "\<exists>comparisons.
           analyzeSheetComparisons allSheets allDocuments = Inr comparisons
         \<and> distinct (map sheetCode comparisons)
         \<and> set (map sheetCode comparisons)
             = {c. \<exists>s1 \<in> set allSheets. \<exists>s2 \<in> set allSheets.
                     code s1 = c \<and> code s2 = c \<and> documentId s1 \<noteq> documentId s2}
         \<and> (\<forall>comparison \<in> set comparisons.
               distinct (map comparedDocumentId (documents comparison))
             \<and> set (map comparedDocumentId (documents comparison))
                 = documentId ` {s \<in> set allSheets. code s = sheetCode comparison})"
proof -
  obtain obj where g: "group_sheets allSheets [] = Inr obj" and d: "distinct (map fst obj)"
    and m: "\<And>c. map_of obj c = (if c \<in> code ` set allSheets
                                   then Some (filter (\<lambda>s. code s = c) allSheets) else None)"
    using group_sheets_ok [OF assms, of "[]"] by auto
  let ?xs = "entries obj"
  let ?comps = "concat (map (comparison_of allDocuments) ?xs)"
  have res: "analyzeSheetComparisons allSheets allDocuments = Inr ?comps"
    by (simp add: analyzeSheetComparisons_def g)
  have dx: "distinct (map fst ?xs)"
    by (rule distinct_entries [OF d])
  have mem: "(c, codeSheets) \<in> set ?xs \<longleftrightarrow>
             c \<in> code ` set allSheets \<and> codeSheets = filter (\<lambda>s. code s = c) allSheets" for c codeSheets
    using map_of_eq_Some_iff [OF d, of c codeSheets] m [of c]
    by (auto simp add: set_entries split: if_splits)
  have dist: "distinct (map sheetCode ?comps)"
    using dx by (simp add: sheetCodes_of_comparisons distinct_map_filter)
  have codes: "set (map sheetCode ?comps)
             = {c. \<exists>s1 \<in> set allSheets. \<exists>s2 \<in> set allSheets.
                     code s1 = c \<and> code s2 = c \<and> documentId s1 \<noteq> documentId s2}"
  proof -
    have "set (map sheetCode ?comps) = {c. \<exists>codeSheets. (c, codeSheets) \<in> set ?xs \<and> several_documents codeSheets}"
      by (force simp add: sheetCodes_of_comparisons)
    also have "\<dots> = {c. c \<in> code ` set allSheets
                         \<and> several_documents (filter (\<lambda>s. code s = c) allSheets)}"
      by (simp add: mem)
    also have "\<dots> = {c. \<exists>s1 \<in> set allSheets. \<exists>s2 \<in> set allSheets.
                     code s1 = c \<and> code s2 = c \<and> documentId s1 \<noteq> documentId s2}"
      by (auto simp add: several_documents_def)
    finally show ?thesis .
  qed
  have docs: "distinct (map comparedDocumentId (documents comparison))
             \<and> set (map comparedDocumentId (documents comparison))
                 = documentId ` {s \<in> set allSheets. code s = sheetCode comparison}"
    if member: "comparison \<in> set ?comps" for comparison
  proof -
    obtain codeSheets where e: "(sheetCode comparison, codeSheets) \<in> set ?xs"
      and ds: "documents comparison = map (compared_document allDocuments codeSheets)
                                   (unique (map documentId codeSheets))"
      using comparison_from_entry [OF member] by blast
    have sh: "codeSheets = filter (\<lambda>s. code s = sheetCode comparison) allSheets"
      using e mem by simp
    have ids: "map comparedDocumentId (documents comparison) = unique (map documentId codeSheets)"
      by (simp add: ds compared_document_ids del: map_map)
    show ?thesis
      unfolding ids by (auto simp add: sh)
  qed
  show ?thesis
    using res dist codes docs by blast
qed

lemma analyze_two_versions:
  "analyzeSheetComparisons two_versions two_documents =
     Inr [\<lparr>sheetCode = ''S-1.1'',
           documents =
             [\<lparr>comparedDocumentId = 10, documentTitle = ''90% CD'',
               sheet = Some (foundation_plan 1 10)\<rparr>,
              \<lparr>comparedDocumentId = 11, documentTitle = ''Document 11'',
               sheet = Some (foundation_plan 3 11)\<rparr>]\<rparr>]"
  by code_simp

text \<open>
  C9: \<open>analyzeSheetComparisons\<close> is to produce exactly one comparison for each sheet
  code that occurs on sheets of two documents at least. The sheet code \<open>constructor\<close>
  occurs here on sheets of documents 10 and 11, so one comparison with two documents is
  due; the function throws a \<open>TypeError\<close> instead and produces no comparison, because
  \<open>sheetsByCode["constructor"]\<close> is the inherited \<open>Object\<close> function, which is
  truthy and has no \<open>push\<close>.
\<close>

theorem C9_inherited_key_throws:
  "analyzeSheetComparisons constructor_sheets two_documents
     = Inl (TypeError ''sheetsByCode[sheet.code].push is not a function'')
   \<and> map code constructor_sheets = [''constructor'', ''constructor'']
   \<and> map documentId constructor_sheets = [10, 11]"
  by (simp add: analyzeSheetComparisons_def constructor_sheets_def constructor_notes_def
      object_prototype_keys_def)

section \<open>Bounding-box parsing never throws\<close>

text \<open>
  C10: for every input string, and whatever \<open>JSON.parse\<close> does on it,
  \<open>parseBoundingBox\<close> returns a value: the parsed one when parsing succeeds, the
  default box \<open>{x: 0, y: 0, width: 100, height: 100}\<close> when parsing throws. No
  exception reaches the caller.
\<close>

theorem C10_parseBoundingBox_total:
  "parseBoundingBox JSON_parse bbox
     = Inr (case JSON_parse bbox of Inr parsed \<Rightarrow> parsed | Inl err \<Rightarrow> default_box)
   \<and> \<not> isl (parseBoundingBox JSON_parse bbox)
   \<and> default_box = J_object [(''x'', J_number 0), (''y'', J_number 0),
                              (''width'', J_number 100), (''height'', J_number 100)]"
  by (simp add: parseBoundingBox_def default_box_def split: sum.splits)

end
